theory Spec2Isabelle
  imports Complex_Main "HOL-Library.Finite_Map" "HOL-Library.Word"
begin

section \<open>Values and documents\<close>

text \<open>
  The service moves Python dictionaries between JSON request bodies, Pydantic models and
  MongoDB documents. A dictionary is a finite map from strings to values: dictionary
  equality in Python ignores insertion order, and so does equality of finite maps.

  A \<open>datetime\<close> is an instant, counted in microseconds since the epoch. An \<open>ObjectId\<close>
  is its twelve bytes, held as one 96-bit word. A Python \<open>float\<close> is modelled by a
  rational number: the program only compares floats with the bounds of a schema.
\<close>

datatype datetime = Datetime (micros: int)

datatype ObjectId = ObjectId (binary: "96 word")

datatype val =
    VNone
  | VBool bool
  | VInt int
  | VFloat rat
  | VStr string
  | VDatetime datetime
  | VObjectId ObjectId
  | VList "val list"
  | VDict "(string, val) fmap"

type_synonym doc = "(string, val) fmap"

definition is_datetime :: "val \<Rightarrow> bool" where
  "is_datetime v = (case v of VDatetime _ \<Rightarrow> True | _ \<Rightarrow> False)"

section \<open>Library behaviour the repository relies on\<close>

text \<open>
  The repository calls into the Python runtime, bson, pymongo and Pydantic. What those
  libraries compute on a value, and that the code only passes along, is a parameter of
  the model, collected in one record:
  \<^item> \<open>str_other\<close>: Python's \<open>str\<close> on a value that is neither a string nor an ObjectId;
  \<^item> \<open>isoformat\<close>: \<open>datetime.isoformat\<close>;
  \<^item> \<open>query_matches\<close>: whether a document matches a non-empty MongoDB query;
  \<^item> \<open>to_int\<close>, \<open>to_float\<close>, \<open>to_bool\<close>: Pydantic's conversion of an input value
    to a field of type \<open>int\<close>, \<open>float\<close>, \<open>bool\<close> (\<open>None\<close> when the input is refused);
  \<^item> \<open>lower_other\<close>: \<open>str.lower()\<close> on a string that has a character outside ASCII;
  \<^item> \<open>path_set\<close>: the document that \<open>$set\<close> makes of a matched document when some
    key of \<open>$set\<close> is not a plain field name (a dotted path, an operator), or \<open>None\<close>
    when the server refuses the update;
  \<^item> \<open>paths_accepted\<close>: whether the server accepts such a \<open>$set\<close> when no document
    matches.
  Every theorem holds for every such record.
\<close>

record runtime =
  str_other :: "val \<Rightarrow> string"
  isoformat :: "datetime \<Rightarrow> string"
  query_matches :: "doc \<Rightarrow> doc \<Rightarrow> bool"
  to_int :: "val \<Rightarrow> int option"
  to_float :: "val \<Rightarrow> rat option"
  to_bool :: "val \<Rightarrow> bool option"
  lower_other :: "string \<Rightarrow> string"
  path_set :: "doc \<Rightarrow> doc \<Rightarrow> doc option"
  paths_accepted :: "doc \<Rightarrow> bool"

subsection \<open>ObjectId and its 24-digit hexadecimal form\<close>

definition hex_char :: "nat \<Rightarrow> char" where
  "hex_char n = ''0123456789abcdef'' ! n"

fun hex_digits :: "nat \<Rightarrow> nat \<Rightarrow> string" where
  "hex_digits 0 n = []"
| "hex_digits (Suc k) n = hex_digits k (n div 16) @ [hex_char (n mod 16)]"

definition hex_val :: "char \<Rightarrow> nat option" where
  "hex_val c = map_of
     [(CHR ''0'', 0), (CHR ''1'', 1), (CHR ''2'', 2), (CHR ''3'', 3), (CHR ''4'', 4),
      (CHR ''5'', 5), (CHR ''6'', 6), (CHR ''7'', 7), (CHR ''8'', 8), (CHR ''9'', 9),
      (CHR ''a'', 10), (CHR ''b'', 11), (CHR ''c'', 12), (CHR ''d'', 13), (CHR ''e'', 14),
      (CHR ''f'', 15),
      (CHR ''A'', 10), (CHR ''B'', 11), (CHR ''C'', 12), (CHR ''D'', 13), (CHR ''E'', 14),
      (CHR ''F'', 15)] c"

fun from_hex :: "nat \<Rightarrow> string \<Rightarrow> nat option" where
  "from_hex acc [] = Some acc"
| "from_hex acc (c # cs) =
     (case hex_val c of None \<Rightarrow> None | Some d \<Rightarrow> from_hex (16 * acc + d) cs)"

text \<open>\<open>str(oid)\<close>: the 24 lower-case hexadecimal digits of the twelve bytes.\<close>

definition oid_str :: "ObjectId \<Rightarrow> string" where
  "oid_str oid = hex_digits 24 (unat (binary oid))"

text \<open>
  \<open>ObjectId(doc_id)\<close> on a string: the string must be 24 hexadecimal digits, otherwise
  bson raises \<open>InvalidId\<close>, which is the value \<open>None\<close> here.
\<close>

definition ObjectId_of_str :: "string \<Rightarrow> ObjectId option" where
  "ObjectId_of_str s =
     (if length s = 24
      then (case from_hex 0 s of None \<Rightarrow> None | Some n \<Rightarrow> Some (ObjectId (word_of_nat n)))
      else None)"

definition py_str :: "runtime \<Rightarrow> val \<Rightarrow> string" where
  "py_str E v = (case v of VObjectId oid \<Rightarrow> oid_str oid | VStr s \<Rightarrow> s | _ \<Rightarrow> str_other E v)"

section \<open>The document store\<close>

text \<open>
  MongoDB and its driver are outside the repository. The database is the black box of
  the specification: it holds, for every collection name, the sequence of its documents
  (a collection that was never written is empty, and every string names a collection).
  What the model takes from the driver's documentation:
  \<^item> Writing a value encodes it as BSON, which keeps a datetime to the millisecond
    (\<open>bson_roundtrip\<close>); every other value is read back as it was written.
  \<^item> \<open>insert_one\<close> gives the document the fresh ObjectId \<open>oid\<close> unless it carries an
    \<open>_id\<close> of its own, and refuses an \<open>_id\<close> the collection already holds.
  \<^item> \<open>find\<close> with the empty query returns every document of the collection, in
    insertion order; what a non-empty query matches is left to \<open>query_matches\<close>.
  \<^item> \<open>update_one\<close> with \<open>$set\<close> and \<open>delete_one\<close> act on the first document with
    the given \<open>_id\<close> and on no other. A key of \<open>$set\<close> that is a plain field name
    (not empty, no dot, no NUL, no leading dollar sign, not \<open>_id\<close>) names a top-level
    field, which takes the value. Any other key is a path or an operator to the server:
    what the server then does with the matched document is \<open>path_set\<close>, and a refused
    update is the driver's \<open>WriteError\<close>.
  \<^item> \<open>cursor.limit(n)\<close> with a negative \<open>n\<close> limits the result to \<open>-n\<close> documents,
    as the driver sends the absolute value to the server; the code never passes the limit
    0 to the cursor.
  Limits of the server (document size, 64-bit integers, names it refuses) are not modelled.
\<close>

type_synonym database = "string \<Rightarrow> doc list"

definition ms_floor :: "datetime \<Rightarrow> datetime" where
  "ms_floor d = Datetime (micros d - micros d mod 1000)"

primrec bson_roundtrip :: "val \<Rightarrow> val" where
  "bson_roundtrip VNone = VNone"
| "bson_roundtrip (VBool b) = VBool b"
| "bson_roundtrip (VInt i) = VInt i"
| "bson_roundtrip (VFloat r) = VFloat r"
| "bson_roundtrip (VStr s) = VStr s"
| "bson_roundtrip (VDatetime d) = VDatetime (ms_floor d)"
| "bson_roundtrip (VObjectId oid) = VObjectId oid"
| "bson_roundtrip (VList xs) = VList (map bson_roundtrip xs)"
| "bson_roundtrip (VDict m) = VDict (fmmap bson_roundtrip m)"

datatype exn =
    DatabaseNotAvailable
  | DuplicateKeyError
  | WriteError
  | ValidationError "string list"
  | HTTPException nat string

definition has_id :: "val \<Rightarrow> doc \<Rightarrow> bool" where
  "has_id ident d = (fmlookup d ''_id'' = Some ident)"

definition insert_one :: "doc list \<Rightarrow> doc \<Rightarrow> ObjectId \<Rightarrow> exn + (val \<times> doc list)" where
  "insert_one docs document oid =
     (let inserted_id = (case fmlookup document ''_id'' of None \<Rightarrow> VObjectId oid | Some v \<Rightarrow> v);
          stored = fmmap bson_roundtrip (fmupd ''_id'' inserted_id document)
      in if list_ex (has_id (bson_roundtrip inserted_id)) docs then Inl DuplicateKeyError
         else Inr (inserted_id, docs @ [stored]))"

definition find_docs :: "runtime \<Rightarrow> doc list \<Rightarrow> doc \<Rightarrow> doc list" where
  "find_docs E docs query =
     (if query = fmempty then docs else filter (query_matches E query) docs)"

definition cursor_limit :: "int \<Rightarrow> doc list \<Rightarrow> doc list" where
  "cursor_limit n docs = take (nat \<bar>n\<bar>) docs"

definition find_one :: "doc list \<Rightarrow> ObjectId \<Rightarrow> doc option" where
  "find_one docs oid = find (has_id (VObjectId oid)) docs"

fun change_first :: "(doc \<Rightarrow> bool) \<Rightarrow> (doc \<Rightarrow> doc) \<Rightarrow> doc list \<Rightarrow> doc list" where
  "change_first P f [] = []"
| "change_first P f (d # ds) = (if P d then f d # ds else d # change_first P f ds)"

fun remove_first :: "(doc \<Rightarrow> bool) \<Rightarrow> doc list \<Rightarrow> doc list" where
  "remove_first P [] = []"
| "remove_first P (d # ds) = (if P d then ds else d # remove_first P ds)"

definition plain_key :: "string \<Rightarrow> bool" where
  "plain_key k =
     (k \<noteq> [] \<and> k \<noteq> ''_id'' \<and> hd k \<noteq> CHR ''$'' \<and> CHR ''.'' \<notin> set k \<and> CHR 0x00 \<notin> set k)"

definition plain_keys :: "doc \<Rightarrow> bool" where
  "plain_keys d = fmpred (\<lambda>k v. plain_key k) d"

text \<open>
  \<open>update_one({"_id": oid}, {"$set": set_fields})\<close>: the matched count and the new
  documents, or the error the driver raises.
\<close>

definition update_one ::
  "runtime \<Rightarrow> doc list \<Rightarrow> ObjectId \<Rightarrow> doc \<Rightarrow> exn + (nat \<times> doc list)" where
  "update_one E docs oid set_fields =
     (case find (has_id (VObjectId oid)) docs of
        None \<Rightarrow>
          if plain_keys set_fields \<or> paths_accepted E set_fields then Inr (0, docs)
          else Inl WriteError
      | Some d \<Rightarrow>
          if plain_keys set_fields
          then Inr (1, change_first (has_id (VObjectId oid))
                         (\<lambda>d. d ++\<^sub>f fmmap bson_roundtrip set_fields) docs)
          else (case path_set E d set_fields of
                  None \<Rightarrow> Inl WriteError
                | Some d' \<Rightarrow> Inr (1, change_first (has_id (VObjectId oid)) (\<lambda>d. d') docs)))"

text \<open>\<open>delete_one({"_id": oid})\<close>: the deleted count and the new documents.\<close>

definition delete_one :: "doc list \<Rightarrow> ObjectId \<Rightarrow> nat \<times> doc list" where
  "delete_one docs oid =
     (if list_ex (has_id (VObjectId oid)) docs
      then (1, remove_first (has_id (VObjectId oid)) docs)
      else (0, docs))"

text \<open>\<open>db[collection_name]\<close> as the list of its documents (none without a database).\<close>

definition documents_of :: "database option \<Rightarrow> string \<Rightarrow> doc list" where
  "documents_of db collection_name = (case db of None \<Rightarrow> [] | Some st \<Rightarrow> st collection_name)"

section \<open>database.py\<close>

text \<open>
  The module-level \<open>db\<close> is \<open>None\<close> when the connection was not configured. Every
  function takes it as an argument; a function that writes returns it updated. The two
  readings of the clock in \<open>create_document\<close>, the reading in \<open>update_document\<close> and the
  ObjectId that the driver generates are arguments as well.
\<close>

datatype model_or_dict = BaseModel doc | PlainDict doc

fun to_dict :: "model_or_dict \<Rightarrow> doc" where
  "to_dict (BaseModel dumped) = dumped"
| "to_dict (PlainDict d) = d"

definition serialize_doc :: "runtime \<Rightarrow> doc \<Rightarrow> doc" where
  "serialize_doc E doc =
     (if doc = fmempty then doc
      else
        let doc1 = (case fmlookup doc ''_id'' of
                      None \<Rightarrow> doc
                    | Some VNone \<Rightarrow> doc
                    | Some v \<Rightarrow> fmdrop ''_id'' (fmupd ''id'' (VStr (py_str E v)) doc))
        in fmmap (\<lambda>v. case v of VDatetime d \<Rightarrow> VStr (isoformat E d) | _ \<Rightarrow> v) doc1)"

definition create_document ::
  "runtime \<Rightarrow> database option \<Rightarrow> string \<Rightarrow> model_or_dict \<Rightarrow> datetime \<Rightarrow> datetime \<Rightarrow> ObjectId
     \<Rightarrow> (exn + string) \<times> database option" where
  "create_document E db collection_name data now1 now2 oid =
     (case db of
        None \<Rightarrow> (Inl DatabaseNotAvailable, db)
      | Some st \<Rightarrow>
          let data_dict = to_dict data;
              data_dict = fmupd ''created_at'' (VDatetime now1) data_dict;
              data_dict = fmupd ''updated_at'' (VDatetime now2) data_dict
          in (case insert_one (st collection_name) data_dict oid of
                Inl e \<Rightarrow> (Inl e, db)
              | Inr (inserted_id, docs) \<Rightarrow>
                  (Inr (py_str E inserted_id), Some (st(collection_name := docs)))))"

definition get_documents ::
  "runtime \<Rightarrow> database option \<Rightarrow> string \<Rightarrow> doc option \<Rightarrow> int option \<Rightarrow> exn + doc list" where
  "get_documents E db collection_name filter_dict limit =
     (case db of
        None \<Rightarrow> Inl DatabaseNotAvailable
      | Some st \<Rightarrow>
          let cursor = find_docs E (st collection_name)
                         (case filter_dict of None \<Rightarrow> fmempty | Some f \<Rightarrow> f);
              cursor = (case limit of
                          None \<Rightarrow> cursor
                        | Some n \<Rightarrow> if n = 0 then cursor else cursor_limit n cursor)
          in Inr (map (serialize_doc E) cursor))"

definition get_document_by_id ::
  "runtime \<Rightarrow> database option \<Rightarrow> string \<Rightarrow> string \<Rightarrow> exn + doc option" where
  "get_document_by_id E db collection_name doc_id =
     (case db of
        None \<Rightarrow> Inl DatabaseNotAvailable
      | Some st \<Rightarrow>
          (case ObjectId_of_str doc_id of
             None \<Rightarrow> Inr None
           | Some obj_id \<Rightarrow>
               (case find_one (st collection_name) obj_id of
                  None \<Rightarrow> Inr None
                | Some doc \<Rightarrow> if doc = fmempty then Inr None else Inr (Some (serialize_doc E doc)))))"

text \<open>
  In \<open>update_document\<close>, the dictionary comprehension that drops the four reserved keys
  and the assignment of \<open>updated_at\<close> that follows it build the argument of \<open>$set\<close>.
\<close>

definition reserved_keys :: "string list" where
  "reserved_keys = [''_id'', ''id'', ''created_at'', ''updated_at'']"

definition update_fields :: "doc \<Rightarrow> datetime \<Rightarrow> doc" where
  "update_fields data now =
     fmupd ''updated_at'' (VDatetime now) (fmfilter (\<lambda>k. k \<notin> set reserved_keys) data)"

definition update_document ::
  "runtime \<Rightarrow> database option \<Rightarrow> string \<Rightarrow> string \<Rightarrow> doc \<Rightarrow> datetime
     \<Rightarrow> (exn + bool) \<times> database option" where
  "update_document E db collection_name doc_id data now =
     (case db of
        None \<Rightarrow> (Inl DatabaseNotAvailable, db)
      | Some st \<Rightarrow>
          (case ObjectId_of_str doc_id of
             None \<Rightarrow> (Inr False, db)
           | Some obj_id \<Rightarrow>
               (case update_one E (st collection_name) obj_id (update_fields data now) of
                  Inl e \<Rightarrow> (Inl e, db)
                | Inr (matched_count, docs) \<Rightarrow>
                    (Inr (matched_count > 0), Some (st(collection_name := docs))))))"

definition delete_document ::
  "database option \<Rightarrow> string \<Rightarrow> string \<Rightarrow> (exn + bool) \<times> database option" where
  "delete_document db collection_name doc_id =
     (case db of
        None \<Rightarrow> (Inl DatabaseNotAvailable, db)
      | Some st \<Rightarrow>
          (case ObjectId_of_str doc_id of
             None \<Rightarrow> (Inr False, db)
           | Some obj_id \<Rightarrow>
               (case delete_one (st collection_name) obj_id of
                  (deleted_count, docs) \<Rightarrow>
                    (Inr (deleted_count > 0), Some (st(collection_name := docs))))))"

section \<open>schemas.py\<close>

text \<open>
  A Pydantic model class is the list of its fields: name, type with its constraints,
  and default (\<open>None\<close> for a required field). The types are the ones schemas.py uses.
  A \<open>default_factory\<close> is the value it builds; a nested model defaults to its dump.
\<close>

datatype ftype =
    TStr
  | TInt "int option"
  | TFloat "rat option" "rat option"
  | TBool
  | TLiteral "string list"
  | TOptional ftype
  | TList ftype
  | TDictStrFloat
  | TModel "field list"
and field = Field (fname: string) (ftyp: ftype) (fdefault: "val option")

datatype model = Model (class_name: string) (model_fields: "field list")

definition StatBlock :: "field list" where
  "StatBlock =
     [Field ''strength'' (TInt None) (Some (VInt 0)),
      Field ''agility'' (TInt None) (Some (VInt 0)),
      Field ''intelligence'' (TInt None) (Some (VInt 0)),
      Field ''vitality'' (TInt None) (Some (VInt 0)),
      Field ''luck'' (TInt None) (Some (VInt 0)),
      Field ''defense'' (TInt None) (Some (VInt 0)),
      Field ''power'' (TInt None) (Some (VInt 0))]"

definition StatBlock_default :: val where
  "StatBlock_default = VDict (fmap_of_list
     [(''strength'', VInt 0), (''agility'', VInt 0), (''intelligence'', VInt 0),
      (''vitality'', VInt 0), (''luck'', VInt 0), (''defense'', VInt 0), (''power'', VInt 0)])"

definition RecipeIngredient :: "field list" where
  "RecipeIngredient =
     [Field ''item_id'' TStr None,
      Field ''quantity'' (TInt (Some 1)) (Some (VInt 1))]"

definition Recipe :: "field list" where
  "Recipe =
     [Field ''ingredients'' (TList (TModel RecipeIngredient)) (Some (VList [])),
      Field ''crafting_time_sec'' (TInt (Some 0)) (Some (VInt 0)),
      Field ''crafting_cost'' (TInt (Some 0)) (Some (VInt 0))]"

definition ImageData :: "field list" where
  "ImageData =
     [Field ''url'' (TOptional TStr) (Some VNone),
      Field ''alt'' (TOptional TStr) (Some VNone)]"

definition rarities :: "string list" where
  "rarities = [''common'', ''uncommon'', ''rare'', ''epic'', ''legendary'', ''mythic'']"

definition Item :: model where
  "Item = Model ''Item''
     [Field ''name'' TStr None,
      Field ''description'' (TOptional TStr) (Some VNone),
      Field ''item_type''
        (TLiteral [''weapon'', ''armor'', ''accessory'', ''set'', ''consumable'', ''material'',
                   ''key'', ''misc''])
        (Some (VStr ''misc'')),
      Field ''rarity'' (TLiteral rarities) (Some (VStr ''common'')),
      Field ''price'' (TInt (Some 0)) (Some (VInt 0)),
      Field ''image'' (TOptional (TModel ImageData)) (Some VNone),
      Field ''stats'' (TModel StatBlock) (Some StatBlock_default),
      Field ''set_parts'' (TList TStr) (Some (VList [])),
      Field ''recipe'' (TOptional (TModel Recipe)) (Some VNone),
      Field ''tradable'' TBool (Some (VBool True)),
      Field ''stack_size'' (TInt (Some 1)) (Some (VInt 1)),
      Field ''tags'' (TList TStr) (Some (VList []))]"

definition LootEntry :: "field list" where
  "LootEntry =
     [Field ''item_id'' TStr None,
      Field ''drop_rate'' (TFloat (Some 0) (Some 1)) None,
      Field ''quantity_min'' (TInt (Some 1)) (Some (VInt 1)),
      Field ''quantity_max'' (TInt (Some 1)) (Some (VInt 1))]"

definition LootTable :: model where
  "LootTable = Model ''LootTable''
     [Field ''name'' TStr None,
      Field ''chest_type''
        (TLiteral [''wood'', ''iron'', ''gold'', ''diamond'', ''event'', ''boss'', ''custom''])
        (Some (VStr ''custom'')),
      Field ''entries'' (TList (TModel LootEntry)) (Some (VList [])),
      Field ''rolls'' (TInt (Some 1)) (Some (VInt 1))]"

definition Reward :: "field list" where
  "Reward =
     [Field ''gold'' (TInt None) (Some (VInt 0)),
      Field ''exp'' (TInt None) (Some (VInt 0)),
      Field ''items'' (TList (TModel LootEntry)) (Some (VList []))]"

definition Reward_default :: val where
  "Reward_default = VDict (fmap_of_list
     [(''gold'', VInt 0), (''exp'', VInt 0), (''items'', VList [])])"

definition StatCheck :: "field list" where
  "StatCheck =
     [Field ''stat''
        (TLiteral [''strength'', ''agility'', ''intelligence'', ''vitality'', ''luck'',
                   ''defense'', ''power''])
        None,
      Field ''threshold'' (TInt (Some 0)) None,
      Field ''success_modifier'' (TFloat (Some 0) None) (Some (VFloat 1)),
      Field ''fail_penalty'' (TFloat (Some 0) None) (Some (VFloat 1))]"

definition Expedition :: model where
  "Expedition = Model ''Expedition''
     [Field ''name'' TStr None,
      Field ''description'' (TOptional TStr) (Some VNone),
      Field ''duration_minutes'' (TInt (Some 1)) (Some (VInt 30)),
      Field ''base_rewards'' (TModel Reward) (Some Reward_default),
      Field ''loot_table_id'' (TOptional TStr) (Some VNone),
      Field ''loot_rolls'' (TInt (Some 0)) (Some (VInt 1)),
      Field ''stat_checks'' (TList (TModel StatCheck)) (Some (VList [])),
      Field ''recommended_stats'' (TModel StatBlock) (Some StatBlock_default),
      Field ''required_level'' (TInt (Some 1)) (Some (VInt 1))]"

definition Title :: model where
  "Title = Model ''Title''
     [Field ''name'' TStr None,
      Field ''description'' (TOptional TStr) (Some VNone),
      Field ''rarity'' (TLiteral rarities) (Some (VStr ''common'')),
      Field ''acquisition'' (TOptional TStr) (Some VNone)]"

definition Background :: model where
  "Background = Model ''Background''
     [Field ''name'' TStr None,
      Field ''description'' (TOptional TStr) (Some VNone),
      Field ''image'' (TOptional (TModel ImageData)) (Some VNone),
      Field ''rarity'' (TLiteral rarities) (Some (VStr ''common''))]"

definition ActivityReward :: model where
  "ActivityReward = Model ''ActivityReward''
     [Field ''activity_key'' TStr None,
      Field ''base_rewards'' (TModel Reward) (Some Reward_default),
      Field ''loot_table_id'' (TOptional TStr) (Some VNone),
      Field ''loot_rolls'' (TInt (Some 0)) (Some (VInt 0)),
      Field ''modifiers'' TDictStrFloat (Some (VDict fmempty))]"

definition MODEL_REGISTRY :: "(string \<times> model) list" where
  "MODEL_REGISTRY =
     [(''item'', Item),
      (''loottable'', LootTable),
      (''expedition'', Expedition),
      (''title'', Title),
      (''background'', Background),
      (''activityreward'', ActivityReward)]"

text \<open>
  \<open>str.lower()\<close>. A string is the list of the bytes of its UTF-8 encoding, so a
  character outside ASCII shows as bytes with the high bit set. On a string of ASCII
  characters \<open>lower\<close> maps the letters A to Z and keeps every other character; on any
  other string it is what Unicode makes of it, \<open>lower_other\<close>.
\<close>

definition lower_char :: "char \<Rightarrow> char" where
  "lower_char c =
     (case map_of (zip ''ABCDEFGHIJKLMNOPQRSTUVWXYZ'' ''abcdefghijklmnopqrstuvwxyz'') c of
        None \<Rightarrow> c
      | Some l \<Rightarrow> l)"

definition is_ascii :: "string \<Rightarrow> bool" where
  "is_ascii s = list_all (\<lambda>c. \<not> digit7 c) s"

definition lower :: "runtime \<Rightarrow> string \<Rightarrow> string" where
  "lower E s = (if is_ascii s then map lower_char s else lower_other E s)"

definition get_model_by_collection :: "runtime \<Rightarrow> string \<Rightarrow> model option" where
  "get_model_by_collection E collection = map_of MODEL_REGISTRY (lower E collection)"

subsection \<open>Constructing a model from a dictionary\<close>

text \<open>
  \<open>model(**data)\<close> validates every declared field: a key of \<open>data\<close> that is no field is
  ignored, a missing field takes its default (which is not validated) or is an error
  when it is required, and a present field must validate against its type. The result
  is the dump of the model (\<open>model_dump()\<close>), or the names of the fields that failed,
  which stand for the \<open>ValidationError\<close> that Pydantic raises.
\<close>

definition in_bounds :: "'a::linorder option \<Rightarrow> 'a option \<Rightarrow> 'a \<Rightarrow> bool" where
  "in_bounds ge le x =
     ((case ge of None \<Rightarrow> True | Some b \<Rightarrow> b \<le> x) \<and> (case le of None \<Rightarrow> True | Some b \<Rightarrow> x \<le> b))"

fun validate :: "runtime \<Rightarrow> ftype \<Rightarrow> val \<Rightarrow> val option"
  and validate_fields :: "runtime \<Rightarrow> field list \<Rightarrow> doc \<Rightarrow> string list \<times> doc" where
  "validate E TStr v = (case v of VStr s \<Rightarrow> Some (VStr s) | _ \<Rightarrow> None)"
| "validate E (TInt ge) v =
     (case to_int E v of
        None \<Rightarrow> None
      | Some i \<Rightarrow> if in_bounds ge None i then Some (VInt i) else None)"
| "validate E (TFloat ge le) v =
     (case to_float E v of
        None \<Rightarrow> None
      | Some x \<Rightarrow> if in_bounds ge le x then Some (VFloat x) else None)"
| "validate E TBool v = map_option VBool (to_bool E v)"
| "validate E (TLiteral allowed) v =
     (case v of VStr s \<Rightarrow> if s \<in> set allowed then Some (VStr s) else None | _ \<Rightarrow> None)"
| "validate E (TOptional t) v = (if v = VNone then Some VNone else validate E t v)"
| "validate E (TList t) v =
     (case v of VList xs \<Rightarrow> map_option VList (those (map (validate E t) xs)) | _ \<Rightarrow> None)"
| "validate E TDictStrFloat v =
     (case v of
        VDict m \<Rightarrow>
          if fmpred (\<lambda>k x. to_float E x \<noteq> None) m
          then Some (VDict (fmmap (\<lambda>x. VFloat (the (to_float E x))) m))
          else None
      | _ \<Rightarrow> None)"
| "validate E (TModel fs) v =
     (case v of
        VDict m \<Rightarrow> (case validate_fields E fs m of ([], out) \<Rightarrow> Some (VDict out) | _ \<Rightarrow> None)
      | _ \<Rightarrow> None)"
| "validate_fields E [] m = ([], fmempty)"
| "validate_fields E (Field name t dflt # fs) m =
     (case validate_fields E fs m of
        (errs, out) \<Rightarrow>
          (case fmlookup m name of
             None \<Rightarrow>
               (case dflt of
                  None \<Rightarrow> (name # errs, out)
                | Some d \<Rightarrow> (errs, fmupd name d out))
           | Some v \<Rightarrow>
               (case validate E t v of
                  None \<Rightarrow> (name # errs, out)
                | Some v' \<Rightarrow> (errs, fmupd name v' out))))"

text \<open>
  A value that the store gives back as it was written, and that is no datetime; and the
  schemas all of whose defaults are such values.
\<close>

definition plain :: "val \<Rightarrow> bool" where
  "plain v = (bson_roundtrip v = v \<and> \<not> is_datetime v)"

fun plain_defaults :: "ftype \<Rightarrow> bool"
  and plain_field_defaults :: "field list \<Rightarrow> bool" where
  "plain_defaults (TOptional t) = plain_defaults t"
| "plain_defaults (TList t) = plain_defaults t"
| "plain_defaults (TModel fs) = plain_field_defaults fs"
| "plain_defaults t = True"
| "plain_field_defaults [] = True"
| "plain_field_defaults (Field name t dflt # fs) =
     (plain_defaults t \<and> (case dflt of None \<Rightarrow> True | Some d \<Rightarrow> plain d)
      \<and> plain_field_defaults fs)"

definition construct :: "runtime \<Rightarrow> model \<Rightarrow> doc \<Rightarrow> string list + doc" where
  "construct E m data =
     (case validate_fields E (model_fields m) data of
        ([], out) \<Rightarrow> Inr out
      | (errs, _) \<Rightarrow> Inl errs)"

section \<open>main.py\<close>

text \<open>
  A route handler returns its response or raises; it also returns the database. FastAPI
  answers an \<open>HTTPException\<close> with its status code. main.py registers no exception
  handler, so every other exception that leaves a handler is answered by the server's
  default response, 500.
\<close>

datatype response = Items "doc list" | Document doc | NewId string | Ok

definition status_code :: "exn + response \<Rightarrow> nat" where
  "status_code r =
     (case r of Inr _ \<Rightarrow> 200 | Inl (HTTPException status _) \<Rightarrow> status | Inl _ \<Rightarrow> 500)"

definition list_documents ::
  "runtime \<Rightarrow> database option \<Rightarrow> string \<Rightarrow> int option \<Rightarrow> (exn + response) \<times> database option" where
  "list_documents E db collection limit =
     (case get_model_by_collection E collection of
        None \<Rightarrow> (Inl (HTTPException 404 ''Unknown collection''), db)
      | Some m \<Rightarrow>
          (case get_documents E db collection None limit of
             Inl e \<Rightarrow> (Inl e, db)
           | Inr docs \<Rightarrow> (Inr (Items docs), db)))"

definition get_document ::
  "runtime \<Rightarrow> database option \<Rightarrow> string \<Rightarrow> string \<Rightarrow> (exn + response) \<times> database option" where
  "get_document E db collection doc_id =
     (case get_model_by_collection E collection of
        None \<Rightarrow> (Inl (HTTPException 404 ''Unknown collection''), db)
      | Some m \<Rightarrow>
          (case get_document_by_id E db collection doc_id of
             Inl e \<Rightarrow> (Inl e, db)
           | Inr None \<Rightarrow> (Inl (HTTPException 404 ''Not found''), db)
           | Inr (Some doc) \<Rightarrow>
               if doc = fmempty then (Inl (HTTPException 404 ''Not found''), db)
               else (Inr (Document doc), db)))"

definition create ::
  "runtime \<Rightarrow> database option \<Rightarrow> string \<Rightarrow> doc \<Rightarrow> datetime \<Rightarrow> datetime \<Rightarrow> ObjectId
     \<Rightarrow> (exn + response) \<times> database option" where
  "create E db collection data now1 now2 oid =
     (case get_model_by_collection E collection of
        None \<Rightarrow> (Inl (HTTPException 404 ''Unknown collection''), db)
      | Some m \<Rightarrow>
          (case construct E m data of
             Inl errs \<Rightarrow> (Inl (ValidationError errs), db)
           | Inr obj \<Rightarrow>
               (case create_document E db collection (BaseModel obj) now1 now2 oid of
                  (Inl e, db') \<Rightarrow> (Inl e, db')
                | (Inr new_id, db') \<Rightarrow> (Inr (NewId new_id), db'))))"

definition update ::
  "runtime \<Rightarrow> database option \<Rightarrow> string \<Rightarrow> string \<Rightarrow> doc \<Rightarrow> datetime
     \<Rightarrow> (exn + response) \<times> database option" where
  "update E db collection doc_id data now =
     (case get_model_by_collection E collection of
        None \<Rightarrow> (Inl (HTTPException 404 ''Unknown collection''), db)
      | Some m \<Rightarrow>
          (case get_document_by_id E db collection doc_id of
             Inl e \<Rightarrow> (Inl e, db)
           | Inr None \<Rightarrow> (Inl (HTTPException 404 ''Not found''), db)
           | Inr (Some existing) \<Rightarrow>
               if existing = fmempty then (Inl (HTTPException 404 ''Not found''), db)
               else
                 let merged = existing ++\<^sub>f data;
                     merged = fmdrop ''id'' merged
                 in (case construct E m merged of
                       Inl errs \<Rightarrow> (Inl (ValidationError errs), db)
                     | Inr obj \<Rightarrow>
                         (case update_document E db collection doc_id data now of
                            (Inl e, db') \<Rightarrow> (Inl e, db')
                          | (Inr ok, db') \<Rightarrow>
                              if \<not> ok then (Inl (HTTPException 400 ''Update failed''), db')
                              else (Inr Ok, db')))))"

definition delete ::
  "runtime \<Rightarrow> database option \<Rightarrow> string \<Rightarrow> string \<Rightarrow> (exn + response) \<times> database option" where
  "delete E db collection doc_id =
     (case get_model_by_collection E collection of
        None \<Rightarrow> (Inl (HTTPException 404 ''Unknown collection''), db)
      | Some m \<Rightarrow>
          (case delete_document db collection doc_id of
             (Inl e, db') \<Rightarrow> (Inl e, db')
           | (Inr ok, db') \<Rightarrow>
               if \<not> ok then (Inl (HTTPException 404 ''Not found''), db')
               else (Inr Ok, db')))"

section \<open>Sample inputs\<close>

text \<open>
  Closed inputs on which the theorems below are instantiated. \<open>exact_runtime\<close> is one
  runtime among all those the theorems quantify over: it converts nothing (a field of type
  \<open>int\<close>, \<open>float\<close> or \<open>bool\<close> takes a value of that type only, and a \<open>float\<close>
  field an \<open>int\<close>), it matches no non-empty query, it refuses every \<open>$set\<close> with a
  key that is no plain field name, it keeps a string with a character outside ASCII as
  it is, and its two string functions return the empty string. The sample inputs need no
  conversion, use no query, have plain ASCII keys and names, and do not depend on what the
  string functions return.
\<close>

definition exact_runtime :: runtime where
  "exact_runtime =
     \<lparr>str_other = (\<lambda>v. []),
      isoformat = (\<lambda>d. []),
      query_matches = (\<lambda>q d. False),
      to_int = (\<lambda>v. case v of VInt i \<Rightarrow> Some i | _ \<Rightarrow> None),
      to_float = (\<lambda>v. case v of VFloat x \<Rightarrow> Some x | VInt i \<Rightarrow> Some (of_int i) | _ \<Rightarrow> None),
      to_bool = (\<lambda>v. case v of VBool b \<Rightarrow> Some b | _ \<Rightarrow> None),
      lower_other = (\<lambda>s. s),
      path_set = (\<lambda>d set_fields. None),
      paths_accepted = (\<lambda>set_fields. False)\<rparr>"

definition empty_database :: database where
  "empty_database = (\<lambda>c. [])"

definition sample_title_data :: doc where
  "sample_title_data = fmap_of_list [(''name'', VStr ''Hero'')]"

definition sample_title :: doc where
  "sample_title = fmap_of_list
     [(''name'', VStr ''Hero''), (''description'', VNone), (''rarity'', VStr ''common''),
      (''acquisition'', VNone)]"

definition sample_bad_item :: doc where
  "sample_bad_item = fmap_of_list [(''item_type'', VStr ''not-a-real-type'')]"

definition sample_loottable_stored :: doc where
  "sample_loottable_stored = fmap_of_list
     [(''_id'', VObjectId (ObjectId 1)), (''name'', VStr ''chest''), (''chest_type'', VStr ''wood''),
      (''entries'', VList []), (''rolls'', VInt 1),
      (''created_at'', VDatetime (Datetime 0)), (''updated_at'', VDatetime (Datetime 0))]"

definition sample_loottable_db :: database where
  "sample_loottable_db = empty_database(''loottable'' := [sample_loottable_stored])"

definition sample_bad_entries :: doc where
  "sample_bad_entries = fmap_of_list
     [(''entries'', VList [VDict (fmap_of_list
         [(''item_id'', VStr ''gem''), (''drop_rate'', VFloat (5 / 2))])])]"

definition sample_update :: doc where
  "sample_update = fmap_of_list
     [(''_id'', VStr ''other''), (''id'', VStr ''other''), (''created_at'', VStr ''1999-01-01''),
      (''updated_at'', VStr ''1999-01-01''), (''name'', VStr ''renamed'')]"

definition sample_five_db :: database where
  "sample_five_db = empty_database(''title'' :=
     map (\<lambda>n. fmap_of_list [(''_id'', VObjectId (ObjectId n)), (''name'', VStr ''Hero'')])
       [1, 2, 3, 4, 5])"

definition sample_null_id :: doc where
  "sample_null_id = fmap_of_list [(''_id'', VNone), (''name'', VStr ''Hero'')]"

definition sample_null_stored :: doc where
  "sample_null_stored = fmap_of_list
     [(''_id'', VNone), (''name'', VStr ''Hero''),
      (''created_at'', VDatetime (Datetime 1000)), (''updated_at'', VDatetime (Datetime 2000))]"

definition sample_null_db :: database where
  "sample_null_db = empty_database(''title'' := [sample_null_stored])"

definition sample_nested :: doc where
  "sample_nested = fmap_of_list
     [(''name'', VStr ''Hero''),
      (''meta'', VDict (fmap_of_list [(''seen'', VDatetime (Datetime 0))]))]"

definition sample_title_stored :: doc where
  "sample_title_stored = fmap_of_list
     [(''_id'', VObjectId (ObjectId 1)), (''name'', VStr ''Hero''), (''description'', VNone),
      (''rarity'', VStr ''common''), (''acquisition'', VNone),
      (''created_at'', VDatetime (Datetime 1000)), (''updated_at'', VDatetime (Datetime 2000))]"

definition sample_case_db :: database where
  "sample_case_db = empty_database(''Title'' := [sample_title_stored])"

definition sample_rename :: doc where
  "sample_rename = fmap_of_list [(''name'', VStr ''Champion'')]"

definition sample_champion :: doc where
  "sample_champion = fmap_of_list
     [(''name'', VStr ''Champion''), (''description'', VNone), (''rarity'', VStr ''common''),
      (''acquisition'', VNone)]"

section \<open>Auxiliary facts\<close>

subsection \<open>An ObjectId is read back from its string\<close>

lemma length_hex_digits: "length (hex_digits k n) = k"
  by (induction k arbitrary: n) auto

lemma hex_val_hex_char: "d < 16 \<Longrightarrow> hex_val (hex_char d) = Some d"
proof -
  assume "d < 16"
  then have "d = 0 \<or> d = 1 \<or> d = 2 \<or> d = 3 \<or> d = 4 \<or> d = 5 \<or> d = 6 \<or> d = 7 \<or> d = 8
      \<or> d = 9 \<or> d = 10 \<or> d = 11 \<or> d = 12 \<or> d = 13 \<or> d = 14 \<or> d = 15"
    by arith
  then show ?thesis
    by (auto simp: hex_val_def hex_char_def)
qed

lemma from_hex_snoc:
  "from_hex acc (xs @ [c]) =
     (case from_hex acc xs of
        None \<Rightarrow> None
      | Some a \<Rightarrow> (case hex_val c of None \<Rightarrow> None | Some d \<Rightarrow> Some (16 * a + d)))"
  by (induction xs arbitrary: acc) (auto split: option.splits)

lemma from_hex_hex_digits: "from_hex acc (hex_digits k n) = Some (acc * 16 ^ k + n mod 16 ^ k)"
proof (induction k arbitrary: n)
  case 0
  then show ?case by simp
next
  case (Suc k)
  have "n mod 16 ^ Suc k = 16 * (n div 16 mod 16 ^ k) + n mod 16"
    by (simp add: mod_mult2_eq)
  then show ?case
    by (simp add: from_hex_snoc Suc hex_val_hex_char algebra_simps)
qed

lemma ObjectId_of_str_oid_str: "ObjectId_of_str (oid_str oid) = Some oid"
proof -
  have "unat (binary oid) < 2 ^ 96"
    using unsigned_less [of "binary oid"] by simp
  also have "(2::nat) ^ 96 = 16 ^ 24" by simp
  finally have "unat (binary oid) mod 16 ^ 24 = unat (binary oid)" by simp
  then show ?thesis
    by (simp add: ObjectId_of_str_def oid_str_def length_hex_digits from_hex_hex_digits)
qed

subsection \<open>A validated value is stored as it is\<close>

lemma those_map_plain:
  assumes "those (map f xs) = Some ys" and "\<And>x y. x \<in> set xs \<Longrightarrow> f x = Some y \<Longrightarrow> bson_roundtrip y = y"
  shows "map bson_roundtrip ys = ys"
  using assms
proof (induction xs arbitrary: ys)
  case Nil
  then show ?case by simp
next
  case (Cons x xs)
  from Cons.prems(1) obtain y zs where y: "f x = Some y" and zs: "those (map f xs) = Some zs"
    and ys: "ys = y # zs"
    by (auto split: option.splits)
  have "bson_roundtrip y = y" using Cons.prems(2) [of x y] y by simp
  moreover have "map bson_roundtrip zs = zs"
    using Cons.IH [OF zs] Cons.prems(2) by auto
  ultimately show ?case using ys by simp
qed

lemma fmmap_fixed:
  assumes "\<And>k x. fmlookup m k = Some x \<Longrightarrow> f x = x"
  shows "fmmap f m = m"
proof (rule fmap_ext)
  fix k
  show "fmlookup (fmmap f m) k = fmlookup m k"
    using assms [of k] by (cases "fmlookup m k") auto
qed

lemma validate_plain:
  "validate E t v = Some v' \<Longrightarrow> plain_defaults t \<Longrightarrow> plain v'"
  "validate_fields E fs m = (errs, out) \<Longrightarrow> plain_field_defaults fs \<Longrightarrow>
     (\<forall>k x. fmlookup out k = Some x \<longrightarrow> plain x) \<and> fmdom out |\<subseteq>| fset_of_list (map fname fs)"
proof (induction E t v and E fs m arbitrary: v' and errs out rule: validate_validate_fields.induct)
  case (7 E t v)
  then show ?case
    by (auto simp: plain_def is_datetime_def split: val.splits dest!: those_map_plain)
next
  case (8 E v)
  then show ?case
    by (auto simp: plain_def is_datetime_def option.map_comp comp_def
          split: val.splits if_splits intro!: fmap_ext)
next
  case (9 E fs v)
  then show ?case
    by (auto simp: plain_def is_datetime_def split: val.splits if_splits prod.splits list.splits
          intro!: fmmap_fixed)
next
  case (11 E name t dflt fs m)
  then show ?case
    by (auto split: option.splits prod.splits if_splits)
qed (auto simp: plain_def is_datetime_def split: val.splits option.splits if_splits)


subsection \<open>What a constructed model holds\<close>

lemma registry_models:
  assumes "get_model_by_collection E c = Some m"
  shows "m \<in> {Item, LootTable, Expedition, Title, Background, ActivityReward}"
proof -
  from assms have "(lower E c, m) \<in> set MODEL_REGISTRY"
    unfolding get_model_by_collection_def by (rule map_of_SomeD)
  then show ?thesis by (auto simp: MODEL_REGISTRY_def)
qed

lemma plain_defaults_simps [simp]:
  "plain StatBlock_default" "plain Reward_default" "plain VNone" "plain (VInt i)" "plain (VStr s)"
  "plain (VBool b)" "plain (VFloat x)" "plain (VList [])" "plain (VDict fmempty)"
  by (simp_all add: plain_def is_datetime_def StatBlock_default_def Reward_default_def fmmap_fmupd)

lemma sub_models_plain [simp]:
  "plain_field_defaults StatBlock" "plain_field_defaults RecipeIngredient"
  "plain_field_defaults Recipe" "plain_field_defaults ImageData"
  "plain_field_defaults LootEntry" "plain_field_defaults Reward"
  "plain_field_defaults StatCheck"
  by (simp_all add: StatBlock_def RecipeIngredient_def Recipe_def ImageData_def LootEntry_def
      Reward_def StatCheck_def)

lemma registry_plain:
  assumes "m \<in> {Item, LootTable, Expedition, Title, Background, ActivityReward}"
  shows "plain_field_defaults (model_fields m)"
    and "set (map fname (model_fields m)) \<inter> set reserved_keys = {}"
  using assms
  by (elim insertE emptyE;
      simp add: Item_def LootTable_def Expedition_def Title_def Background_def
        ActivityReward_def reserved_keys_def)+

lemma construct_plain:
  assumes "get_model_by_collection E c = Some m" and "construct E m raw = Inr P"
  shows "\<And>k x. fmlookup P k = Some x \<Longrightarrow> plain x"
    and "\<And>k. k \<in> set reserved_keys \<Longrightarrow> fmlookup P k = None"
proof -
  from assms(2) have vf: "validate_fields E (model_fields m) raw = ([], P)"
    by (auto simp: construct_def split: prod.splits list.splits)
  note reg = registry_plain [OF registry_models [OF assms(1)]]
  note vp = validate_plain(2) [OF vf reg(1)]
  show "\<And>k x. fmlookup P k = Some x \<Longrightarrow> plain x" using vp by blast
  show "fmlookup P k = None" if "k \<in> set reserved_keys" for k
  proof (rule fmdom_notD)
    from vp have "fmdom P |\<subseteq>| fset_of_list (map fname (model_fields m))" by blast
    with reg(2) that show "k |\<notin>| fmdom P"
      by (auto simp: fset_of_list.rep_eq less_eq_fset.rep_eq)
  qed
qed

subsection \<open>Store operations\<close>

lemma find_snoc_new: "\<not> list_ex P xs \<Longrightarrow> P x \<Longrightarrow> find P (xs @ [x]) = Some x"
  by (induction xs) auto

lemma serialize_doc_with_id:
  assumes "fmlookup d ''_id'' = Some v" and "v \<noteq> VNone"
  shows "serialize_doc E d =
           fmmap (\<lambda>v. case v of VDatetime t \<Rightarrow> VStr (isoformat E t) | _ \<Rightarrow> v)
             (fmdrop ''_id'' (fmupd ''id'' (VStr (py_str E v)) d))"
proof -
  from assms(1) have "d \<noteq> fmempty" by auto
  with assms show ?thesis
    by (cases v) (simp_all add: serialize_doc_def)
qed

lemma create_document_new:
  assumes "fmlookup (to_dict data) ''_id'' = None"
    and "fst (create_document E db c data now1 now2 oid) = Inr ident"
  shows "\<exists>st. db = Some st \<and> ident = oid_str oid
           \<and> \<not> list_ex (has_id (VObjectId oid)) (st c)
           \<and> snd (create_document E db c data now1 now2 oid)
               = Some (st(c := st c @
                   [fmupd ''_id'' (VObjectId oid)
                     (fmupd ''updated_at'' (VDatetime (ms_floor now2))
                       (fmupd ''created_at'' (VDatetime (ms_floor now1))
                         (fmmap bson_roundtrip (to_dict data))))]))"
proof (cases db)
  case None
  with assms(2) show ?thesis by (simp add: create_document_def)
next
  case (Some st)
  with assms show ?thesis
    by (auto simp: create_document_def insert_one_def Let_def py_str_def fmmap_fmupd
        split: if_splits)
qed

subsection \<open>The handlers on sample requests\<close>

lemma get_model_item: "get_model_by_collection exact_runtime ''item'' = Some Item"
  by (simp add: get_model_by_collection_def MODEL_REGISTRY_def lower_def is_ascii_def lower_char_def)

lemma get_model_loottable: "get_model_by_collection exact_runtime ''loottable'' = Some LootTable"
  by (simp add: get_model_by_collection_def MODEL_REGISTRY_def lower_def is_ascii_def lower_char_def)

lemma sample_bad_item_rejected:
  "construct exact_runtime Item sample_bad_item = Inl [''name'', ''item_type'']"
  by (simp add: construct_def Item_def sample_bad_item_def)

lemma get_document_by_id_nonempty:
  assumes "get_document_by_id E db c doc_id = Inr (Some r)"
  shows "r \<noteq> fmempty"
proof -
  from assms obtain st oid d where "db = Some st" "ObjectId_of_str doc_id = Some oid"
    and f: "find_one (st c) oid = Some d" and r: "r = serialize_doc E d"
    by (auto simp: get_document_by_id_def split: option.splits if_splits)
  from f have "has_id (VObjectId oid) d"
    unfolding find_one_def by (auto simp: find_Some_iff)
  then have "fmlookup d ''_id'' = Some (VObjectId oid)" by (simp add: has_id_def)
  from serialize_doc_with_id [OF this] have "fmlookup r ''id'' \<noteq> None"
    by (simp add: r)
  then show ?thesis by auto
qed

lemma sample_loottable_found:
  "get_document_by_id exact_runtime (Some sample_loottable_db) ''loottable'' (oid_str (ObjectId 1))
     = Inr (Some (serialize_doc exact_runtime sample_loottable_stored))"
  by (simp add: get_document_by_id_def ObjectId_of_str_oid_str sample_loottable_db_def
      find_one_def has_id_def sample_loottable_stored_def)

lemma sample_bad_entries_rejected:
  "construct exact_runtime LootTable
     (fmdrop ''id'' (serialize_doc exact_runtime sample_loottable_stored ++\<^sub>f sample_bad_entries))
   = Inl [''entries'']"
  by (simp add: construct_def LootTable_def LootEntry_def sample_bad_entries_def
      serialize_doc_def sample_loottable_stored_def exact_runtime_def in_bounds_def)

subsection \<open>Updating a document\<close>

lemma change_first_find:
  "find P xs = Some d \<Longrightarrow> change_first P f xs = change_first P (\<lambda>_. f d) xs"
  by (induction xs) auto

lemma update_fields_lookup:
  "fmlookup (update_fields data now) k =
     (if k = ''updated_at'' then Some (VDatetime now)
      else if k \<in> set reserved_keys then None else fmlookup data k)"
  by (simp add: update_fields_def)

lemma sample_loottable_find_one:
  "find_one (sample_loottable_db ''loottable'') (ObjectId 1) = Some sample_loottable_stored"
  by (simp add: sample_loottable_db_def find_one_def has_id_def sample_loottable_stored_def)



subsection \<open>Creating and listing on sample stores\<close>

lemma sample_title_created:
  "fst (create_document exact_runtime (Some empty_database) ''title'' (BaseModel sample_title)
          (Datetime 1500) (Datetime 2700) (ObjectId 1)) = Inr (oid_str (ObjectId 1))"
  by (simp add: create_document_def insert_one_def empty_database_def py_str_def
      sample_title_def Let_def)

subsection \<open>Serialized documents\<close>

lemma serialize_doc_alt:
  "serialize_doc E s =
     fmmap (\<lambda>v. case v of VDatetime t \<Rightarrow> VStr (isoformat E t) | _ \<Rightarrow> v)
       (case fmlookup s ''_id'' of
          None \<Rightarrow> s
        | Some v \<Rightarrow> if v = VNone then s else fmdrop ''_id'' (fmupd ''id'' (VStr (py_str E v)) s))"
proof (cases "fmlookup s ''_id''")
  case None
  then show ?thesis by (simp add: serialize_doc_def)
next
  case (Some v)
  then have "s \<noteq> fmempty" by auto
  with Some show ?thesis
    by (cases v) (simp_all add: serialize_doc_def)
qed

lemma rendered_not_datetime:
  "\<not> is_datetime (case v of VDatetime t \<Rightarrow> VStr (isoformat E t) | _ \<Rightarrow> v)"
  by (cases v) (simp_all add: is_datetime_def)

lemma serialize_doc_no_datetime:
  assumes "fmlookup (serialize_doc E s) k = Some v"
  shows "\<not> is_datetime v"
proof -
  from assms obtain x where "v = (case x of VDatetime t \<Rightarrow> VStr (isoformat E t) | _ \<Rightarrow> x)"
    unfolding serialize_doc_alt by auto
  then show ?thesis by (simp add: rendered_not_datetime)
qed

lemma serialize_doc_other:
  assumes "k \<noteq> ''_id''" and "k \<noteq> ''id''"
  shows "fmlookup (serialize_doc E s) k
           = map_option (\<lambda>v. case v of VDatetime t \<Rightarrow> VStr (isoformat E t) | _ \<Rightarrow> v)
               (fmlookup s k)"
proof (cases "fmlookup s ''_id''")
  case None
  then show ?thesis by (simp add: serialize_doc_alt)
next
  case (Some v)
  with assms show ?thesis by (simp add: serialize_doc_alt)
qed

lemma serialize_doc_id:
  assumes "fmlookup s ''_id'' = Some v" and "v \<noteq> VNone"
  shows "fmlookup (serialize_doc E s) ''id'' = Some (VStr (py_str E v))"
    and "fmlookup (serialize_doc E s) ''_id'' = None"
  by (simp_all add: serialize_doc_with_id [OF assms])

lemma get_documents_from_store:
  assumes "get_documents E db c flt limit = Inr rs" and "r \<in> set rs"
  shows "\<exists>s \<in> set (documents_of db c). r = serialize_doc E s"
proof -
  from assms(1) obtain st where db: "db = Some st"
    by (cases db) (simp_all add: get_documents_def)
  define M where "M = find_docs E (st c) (case flt of None \<Rightarrow> fmempty | Some f \<Rightarrow> f)"
  define xs where "xs = (case limit of None \<Rightarrow> M | Some n \<Rightarrow> if n = 0 then M else take (nat \<bar>n\<bar>) M)"
  have M: "set M \<subseteq> set (st c)"
    by (auto simp: M_def find_docs_def)
  have "set xs \<subseteq> set M"
    by (auto simp: xs_def split: option.splits dest: in_set_takeD)
  moreover from assms(1) db have "rs = map (serialize_doc E) xs"
    by (auto simp: get_documents_def Let_def cursor_limit_def xs_def M_def split: option.splits)
  ultimately show ?thesis
    using assms(2) db M by (auto simp: documents_of_def)
qed

lemma get_document_by_id_from_store:
  assumes "get_document_by_id E db c doc_id = Inr (Some r)"
  shows "\<exists>s \<in> set (documents_of db c). \<exists>oid. r = serialize_doc E s
           \<and> ObjectId_of_str doc_id = Some oid \<and> fmlookup s ''_id'' = Some (VObjectId oid)"
proof -
  from assms obtain st oid d where "db = Some st" "ObjectId_of_str doc_id = Some oid"
    and f: "find_one (st c) oid = Some d" and r: "r = serialize_doc E d"
    by (auto simp: get_document_by_id_def split: option.splits if_splits)
  moreover from f have "has_id (VObjectId oid) d" "d \<in> set (st c)"
    unfolding find_one_def by (auto simp: find_Some_iff)
  ultimately show ?thesis
    by (auto simp: documents_of_def has_id_def)
qed

subsection \<open>Collections are named as given\<close>

lemma create_document_frame:
  "(snd (create_document E db c data now1 now2 oid) = None) = (db = None)"
  "c' \<noteq> c \<Longrightarrow>
     documents_of (snd (create_document E db c data now1 now2 oid)) c' = documents_of db c'"
  by (auto simp: create_document_def insert_one_def Let_def documents_of_def
      split: option.splits if_splits)

lemma update_document_frame:
  "(snd (update_document E db c doc_id data now) = None) = (db = None)"
  "c' \<noteq> c \<Longrightarrow>
     documents_of (snd (update_document E db c doc_id data now)) c' = documents_of db c'"
  by (auto simp: update_document_def documents_of_def split: option.splits sum.splits)

lemma delete_document_frame:
  "(snd (delete_document db c doc_id) = None) = (db = None)"
  "c' \<noteq> c \<Longrightarrow> documents_of (snd (delete_document db c doc_id)) c' = documents_of db c'"
  by (auto simp: delete_document_def delete_one_def documents_of_def split: option.splits)

lemma create_frame:
  "(snd (create E db c data now1 now2 oid) = None) = (db = None)"
  "c' \<noteq> c \<Longrightarrow> documents_of (snd (create E db c data now1 now2 oid)) c' = documents_of db c'"
proof -
  have "snd (create E db c data now1 now2 oid) = db
        \<or> (\<exists>obj. snd (create E db c data now1 now2 oid)
                   = snd (create_document E db c (BaseModel obj) now1 now2 oid))"
    by (auto simp: create_def case_prod_beta split: option.splits sum.splits)
  then show "(snd (create E db c data now1 now2 oid) = None) = (db = None)"
    and "c' \<noteq> c \<Longrightarrow>
      documents_of (snd (create E db c data now1 now2 oid)) c' = documents_of db c'"
    using create_document_frame by metis+
qed

lemma update_frame:
  "(snd (update E db c doc_id data now) = None) = (db = None)"
  "c' \<noteq> c \<Longrightarrow> documents_of (snd (update E db c doc_id data now)) c' = documents_of db c'"
proof -
  have "snd (update E db c doc_id data now) = db
        \<or> snd (update E db c doc_id data now) = snd (update_document E db c doc_id data now)"
    by (auto simp: update_def Let_def case_prod_beta split: option.splits sum.splits)
  then show "(snd (update E db c doc_id data now) = None) = (db = None)"
    and "c' \<noteq> c \<Longrightarrow>
      documents_of (snd (update E db c doc_id data now)) c' = documents_of db c'"
    using update_document_frame by metis+
qed

lemma delete_frame:
  "(snd (delete E db c doc_id) = None) = (db = None)"
  "c' \<noteq> c \<Longrightarrow> documents_of (snd (delete E db c doc_id)) c' = documents_of db c'"
proof -
  have "snd (delete E db c doc_id) = db
        \<or> snd (delete E db c doc_id) = snd (delete_document db c doc_id)"
    by (auto simp: delete_def case_prod_beta split: option.splits sum.splits)
  then show "(snd (delete E db c doc_id) = None) = (db = None)"
    and "c' \<noteq> c \<Longrightarrow> documents_of (snd (delete E db c doc_id)) c' = documents_of db c'"
    using delete_document_frame by metis+
qed

lemma reads_depend_on_collection:
  assumes "documents_of db' c = documents_of db c" and "(db' = None) = (db = None)"
  shows "get_documents E db' c flt limit = get_documents E db c flt limit"
    and "get_document_by_id E db' c doc_id = get_document_by_id E db c doc_id"
proof -
  show "get_documents E db' c flt limit = get_documents E db c flt limit"
    using assms by (cases db; cases db') (simp_all add: get_documents_def documents_of_def)
  show "get_document_by_id E db' c doc_id = get_document_by_id E db c doc_id"
    using assms
    by (cases db; cases db')
      (simp_all add: get_document_by_id_def documents_of_def split: option.splits)
qed

lemma handlers_depend_on_collection:
  assumes "documents_of db' c = documents_of db c" and "(db' = None) = (db = None)"
  shows "fst (list_documents E db' c limit) = fst (list_documents E db c limit)"
    and "fst (get_document E db' c doc_id) = fst (get_document E db c doc_id)"
  by (simp_all add: list_documents_def get_document_def reads_depend_on_collection [OF assms]
      split: option.splits sum.splits)

subsection \<open>Updating and deleting by identifier\<close>

lemma plain_update_fields:
  assumes "plain_keys (fmdrop ''_id'' data)"
  shows "plain_keys (update_fields data now)"
proof -
  have "plain_key k" if "fmlookup (update_fields data now) k = Some v" for k v
  proof (cases "k = ''updated_at''")
    case True
    then show ?thesis by (simp add: plain_key_def)
  next
    case False
    with that have "fmlookup data k = Some v" and "k \<noteq> ''_id''"
      by (auto simp: update_fields_lookup reserved_keys_def split: if_splits)
    then have "fmlookup (fmdrop ''_id'' data) k = Some v" by simp
    with assms show ?thesis
      unfolding plain_keys_def fmpred_iff by blast
  qed
  then show ?thesis
    unfolding plain_keys_def fmpred_iff by blast
qed

lemma change_first_at:
  assumes "find P xs = Some d"
  shows "\<exists>i < length xs. xs ! i = d \<and> change_first P f xs = xs[i := f d]
           \<and> (P (f d) \<longrightarrow> find P (xs[i := f d]) = Some (f d))"
  using assms
proof (induction xs)
  case Nil
  then show ?case by simp
next
  case (Cons x xs)
  show ?case
  proof (cases "P x")
    case True
    with Cons.prems have "x = d" by simp
    with True show ?thesis by (intro exI [of _ 0]) simp
  next
    case False
    with Cons.prems have "find P xs = Some d" by simp
    from Cons.IH [OF this] obtain i where "i < length xs" "xs ! i = d"
      "change_first P f xs = xs[i := f d]"
      "P (f d) \<longrightarrow> find P (xs[i := f d]) = Some (f d)"
      by blast
    with False show ?thesis by (intro exI [of _ "Suc i"]) simp
  qed
qed

lemma remove_first_at:
  assumes "find P xs = Some d"
  shows "\<exists>i < length xs. xs ! i = d \<and> remove_first P xs = take i xs @ drop (Suc i) xs"
  using assms
proof (induction xs)
  case Nil
  then show ?case by simp
next
  case (Cons x xs)
  show ?case
  proof (cases "P x")
    case True
    with Cons.prems have "x = d" by simp
    with True show ?thesis by (intro exI [of _ 0]) simp
  next
    case False
    with Cons.prems have "find P xs = Some d" by simp
    from Cons.IH [OF this] obtain i where "i < length xs" "xs ! i = d"
      "remove_first P xs = take i xs @ drop (Suc i) xs"
      by blast
    with False show ?thesis by (intro exI [of _ "Suc i"]) simp
  qed
qed

lemma update_document_effect:
  assumes "ObjectId_of_str doc_id = Some oid"
    and "find_one (st c) oid = Some d"
    and "plain_keys (fmdrop ''_id'' data)"
  shows "\<exists>i < length (st c). st c ! i = d
           \<and> update_document E (Some st) c doc_id data now
               = (Inr True,
                  Some (st(c := (st c)[i := d ++\<^sub>f fmmap bson_roundtrip (update_fields data now)])))
           \<and> find_one ((st c)[i := d ++\<^sub>f fmmap bson_roundtrip (update_fields data now)]) oid
               = Some (d ++\<^sub>f fmmap bson_roundtrip (update_fields data now))"
proof -
  let ?f = "\<lambda>d. d ++\<^sub>f fmmap bson_roundtrip (update_fields data now)"
  from assms(2) have f: "find (has_id (VObjectId oid)) (st c) = Some d"
    by (simp add: find_one_def)
  then have hd: "has_id (VObjectId oid) d"
    by (auto simp: find_Some_iff)
  have "has_id (VObjectId oid) (?f d)"
    using hd by (simp add: has_id_def fmlookup_dom_iff update_fields_lookup reserved_keys_def)
  with change_first_at [OF f, of ?f] obtain i where i: "i < length (st c)" "st c ! i = d"
    "change_first (has_id (VObjectId oid)) ?f (st c) = (st c)[i := ?f d]"
    "find (has_id (VObjectId oid)) ((st c)[i := ?f d]) = Some (?f d)"
    by blast
  have "update_document E (Some st) c doc_id data now
          = (Inr True, Some (st(c := (st c)[i := ?f d])))"
    using assms(1) f i(3) plain_update_fields [OF assms(3)]
    by (simp add: update_document_def update_one_def)
  with i show ?thesis
    by (auto simp: find_one_def)
qed

lemma updated_document_fields:
  fixes d :: doc and data :: doc and now :: datetime
  defines "d' \<equiv> d ++\<^sub>f fmmap bson_roundtrip (update_fields data now)"
  shows "fmlookup d' ''_id'' = fmlookup d ''_id''"
    and "fmlookup d' ''id'' = fmlookup d ''id''"
    and "fmlookup d' ''created_at'' = fmlookup d ''created_at''"
    and "fmlookup d' ''updated_at'' = Some (VDatetime (ms_floor now))"
    and "k \<notin> set reserved_keys \<Longrightarrow>
           fmlookup d' k = (case fmlookup data k of
                              None \<Rightarrow> fmlookup d k
                            | Some v \<Rightarrow> Some (bson_roundtrip v))"
  by (auto simp: d'_def fmlookup_dom_iff update_fields_lookup reserved_keys_def
      split: option.splits)

lemma sample_update_plain: "plain_keys (fmdrop ''_id'' sample_update)"
  unfolding plain_keys_def fmpred_iff
proof (intro allI impI)
  fix k v
  assume "fmlookup (fmdrop ''_id'' sample_update) k = Some v"
  then have "k \<in> {''id'', ''created_at'', ''updated_at'', ''name''}"
    by (simp add: sample_update_def split: if_splits)
  then show "plain_key k"
    by (elim insertE emptyE) (simp_all add: plain_key_def)
qed

lemma no_database_raises:
  "get_documents E None c flt limit = Inl DatabaseNotAvailable"
  "get_document_by_id E None c doc_id = Inl DatabaseNotAvailable"
  "create_document E None c obj now1 now2 oid = (Inl DatabaseNotAvailable, None)"
  "update_document E None c doc_id data now = (Inl DatabaseNotAvailable, None)"
  "delete_document None c doc_id = (Inl DatabaseNotAvailable, None)"
  by (simp_all add: get_documents_def get_document_by_id_def create_document_def
      update_document_def delete_document_def)

subsection \<open>Documents with a null identifier\<close>

lemma serialize_doc_null_id:
  assumes "fmlookup s ''_id'' = None \<or> fmlookup s ''_id'' = Some VNone"
  shows "fmlookup (serialize_doc E s) k
           = map_option (\<lambda>v. case v of VDatetime t \<Rightarrow> VStr (isoformat E t) | _ \<Rightarrow> v)
               (fmlookup s k)"
  using assms by (auto simp: serialize_doc_alt)

lemma sample_null_created:
  "snd (create_document exact_runtime (Some empty_database) ''title'' (PlainDict sample_null_id)
          (Datetime 1500) (Datetime 2700) (ObjectId 1))
   = Some sample_null_db"
proof -
  have "fmmap bson_roundtrip
          (fmupd ''_id'' VNone
            (fmupd ''updated_at'' (VDatetime (Datetime 2700))
              (fmupd ''created_at'' (VDatetime (Datetime 1500)) sample_null_id)))
        = sample_null_stored"
    by (rule fmap_ext)
      (auto simp: sample_null_id_def sample_null_stored_def ms_floor_def)
  then show ?thesis
    by (simp add: create_document_def insert_one_def Let_def empty_database_def
        sample_null_db_def py_str_def exact_runtime_def sample_null_id_def)
qed

lemma sample_null_listed:
  "get_documents exact_runtime (Some sample_null_db) ''title'' None None
     = Inr [serialize_doc exact_runtime sample_null_stored]"
  by (simp add: get_documents_def find_docs_def sample_null_db_def)

subsection \<open>What a handler does to the collection it is given\<close>

lemma list_documents_known:
  assumes "get_model_by_collection E c = Some m"
  shows "list_documents E (Some st) c limit
           = (Inr (Items (map (serialize_doc E)
                (case limit of
                   None \<Rightarrow> st c
                 | Some n \<Rightarrow> if n = 0 then st c else take (nat \<bar>n\<bar>) (st c)))),
              Some st)"
  using assms
  by (simp add: list_documents_def get_documents_def find_docs_def cursor_limit_def Let_def
      split: option.splits)

lemma get_document_by_id_found:
  assumes "ObjectId_of_str doc_id = Some oid" and "find_one (st c) oid = Some d"
  shows "get_document_by_id E (Some st) c doc_id = Inr (Some (serialize_doc E d))"
proof -
  from assms(2) have "has_id (VObjectId oid) d"
    unfolding find_one_def by (auto simp: find_Some_iff)
  then have "d \<noteq> fmempty"
    by (auto simp: has_id_def)
  with assms show ?thesis
    by (simp add: get_document_by_id_def)
qed

lemma get_document_found:
  assumes "get_model_by_collection E c = Some m"
    and "ObjectId_of_str doc_id = Some oid" and "find_one (st c) oid = Some d"
  shows "get_document E (Some st) c doc_id = (Inr (Document (serialize_doc E d)), Some st)"
proof -
  note g = get_document_by_id_found [where st = st and c = c and E = E, OF assms(2,3)]
  from get_document_by_id_nonempty [OF g] assms(1) g show ?thesis
    by (simp add: get_document_def)
qed

lemma get_document_missing:
  assumes "get_model_by_collection E c = Some m"
    and "ObjectId_of_str doc_id = Some oid" and "find_one (st c) oid = None"
  shows "get_document E (Some st) c doc_id = (Inl (HTTPException 404 ''Not found''), Some st)"
  using assms by (simp add: get_document_def get_document_by_id_def)

lemma create_known:
  assumes "get_model_by_collection E c = Some m"
    and "construct E m data = Inr obj"
    and "\<not> list_ex (has_id (VObjectId oid)) (st c)"
  shows "\<exists>d. create E (Some st) c data now1 now2 oid
               = (Inr (NewId (oid_str oid)), Some (st(c := st c @ [d])))
           \<and> fmlookup d ''_id'' = Some (VObjectId oid)
           \<and> fmlookup d ''created_at'' = Some (VDatetime (ms_floor now1))
           \<and> fmlookup d ''updated_at'' = Some (VDatetime (ms_floor now2))
           \<and> (\<forall>k. k \<notin> set reserved_keys \<longrightarrow> fmlookup d k = fmlookup obj k)"
proof -
  note cp = construct_plain [OF assms(1,2)]
  have noid: "fmlookup obj ''_id'' = None"
    by (rule cp(2)) (simp add: reserved_keys_def)
  let ?d = "fmmap bson_roundtrip
              (fmupd ''_id'' (VObjectId oid)
                (fmupd ''updated_at'' (VDatetime now2)
                  (fmupd ''created_at'' (VDatetime now1) obj)))"
  have c: "create_document E (Some st) c (BaseModel obj) now1 now2 oid
             = (Inr (oid_str oid), Some (st(c := st c @ [?d])))"
    using noid assms(3)
    by (simp add: create_document_def insert_one_def Let_def py_str_def)
  have 1: "create E (Some st) c data now1 now2 oid
             = (Inr (NewId (oid_str oid)), Some (st(c := st c @ [?d])))"
    using assms(1,2) by (simp add: create_def c)
  have 2: "fmlookup ?d ''_id'' = Some (VObjectId oid)"
    and 3: "fmlookup ?d ''created_at'' = Some (VDatetime (ms_floor now1))"
    and 4: "fmlookup ?d ''updated_at'' = Some (VDatetime (ms_floor now2))"
    by simp_all
  have 5: "\<forall>k. k \<notin> set reserved_keys \<longrightarrow> fmlookup ?d k = fmlookup obj k"
  proof (intro allI impI)
    fix k
    assume k: "k \<notin> set reserved_keys"
    have "map_option bson_roundtrip (fmlookup obj k) = fmlookup obj k"
    proof (cases "fmlookup obj k")
      case None
      then show ?thesis by simp
    next
      case (Some x)
      with cp(1) have "plain x" by blast
      with Some show ?thesis by (simp add: plain_def)
    qed
    with k show "fmlookup ?d k = fmlookup obj k"
      by (auto simp: reserved_keys_def)
  qed
  show ?thesis
    by (rule exI [of _ ?d]) (rule conjI [OF 1 conjI [OF 2 conjI [OF 3 conjI [OF 4 5]]]])
qed

lemma update_known:
  assumes "get_model_by_collection E c = Some m"
    and "ObjectId_of_str doc_id = Some oid" and "find_one (st c) oid = Some d"
    and "construct E m (fmdrop ''id'' (serialize_doc E d ++\<^sub>f data)) = Inr obj"
    and "plain_keys (fmdrop ''_id'' data)"
  shows "\<exists>i < length (st c). st c ! i = d
           \<and> update E (Some st) c doc_id data now
               = (Inr Ok,
                  Some (st(c := (st c)[i := d ++\<^sub>f fmmap bson_roundtrip (update_fields data now)])))"
proof -
  note g = get_document_by_id_found [where st = st and c = c and E = E, OF assms(2,3)]
  note ne = get_document_by_id_nonempty [OF g]
  from update_document_effect [where st = st and c = c and E = E and now = now,
      OF assms(2,3,5)]
  obtain i where i: "i < length (st c)" "st c ! i = d"
    and u: "update_document E (Some st) c doc_id data now
              = (Inr True,
                 Some (st(c := (st c)[i := d ++\<^sub>f fmmap bson_roundtrip (update_fields data now)])))"
    by blast
  have "update E (Some st) c doc_id data now
          = (Inr Ok,
             Some (st(c := (st c)[i := d ++\<^sub>f fmmap bson_roundtrip (update_fields data now)])))"
    using assms(1,4) g ne by (simp add: update_def Let_def u)
  with i show ?thesis by blast
qed

lemma delete_known:
  assumes "get_model_by_collection E c = Some m"
    and "ObjectId_of_str doc_id = Some oid" and "find_one (st c) oid = Some d"
  shows "\<exists>i < length (st c). st c ! i = d
           \<and> delete E (Some st) c doc_id
               = (Inr Ok, Some (st(c := take i (st c) @ drop (Suc i) (st c))))"
proof -
  from assms(3) have f: "find (has_id (VObjectId oid)) (st c) = Some d"
    by (simp add: find_one_def)
  then have ex: "list_ex (has_id (VObjectId oid)) (st c)"
    by (auto simp: list_ex_iff find_Some_iff)
  from remove_first_at [OF f] obtain i where i: "i < length (st c)" "st c ! i = d"
    and r: "remove_first (has_id (VObjectId oid)) (st c) = take i (st c) @ drop (Suc i) (st c)"
    by blast
  have "delete_document (Some st) c doc_id
          = (Inr True, Some (st(c := take i (st c) @ drop (Suc i) (st c))))"
    using assms(2) ex r by (simp add: delete_document_def delete_one_def)
  then have "delete E (Some st) c doc_id
          = (Inr Ok, Some (st(c := take i (st c) @ drop (Suc i) (st c))))"
    using assms(1) by (simp add: delete_def)
  with i show ?thesis by blast
qed

lemma update_missing:
  assumes "get_model_by_collection E c = Some m"
    and "ObjectId_of_str doc_id = Some oid" and "find_one (st c) oid = None"
  shows "update E (Some st) c doc_id data now
           = (Inl (HTTPException 404 ''Not found''), Some st)"
  using assms by (simp add: update_def get_document_by_id_def)

lemma delete_missing:
  assumes "get_model_by_collection E c = Some m"
    and "ObjectId_of_str doc_id = Some oid" and "find_one (st c) oid = None"
  shows "delete E (Some st) c doc_id = (Inl (HTTPException 404 ''Not found''), Some st)"
proof -
  from assms(3) have "\<not> list_ex (has_id (VObjectId oid)) (st c)"
    by (simp add: find_one_def list_ex_iff find_None_iff)
  with assms(2) have "delete_document (Some st) c doc_id = (Inr False, Some st)"
    by (simp add: delete_document_def delete_one_def)
  with assms(1) show ?thesis
    by (simp add: delete_def)
qed

subsection \<open>Two names of one model\<close>

lemma lower_Title: "lower exact_runtime ''Title'' = lower exact_runtime ''title''"
  by (simp add: lower_def is_ascii_def lower_char_def)

lemma get_model_Title: "get_model_by_collection exact_runtime ''Title'' = Some Title"
  by (simp add: get_model_by_collection_def MODEL_REGISTRY_def lower_def is_ascii_def lower_char_def)

lemma sample_title_accepted:
  "construct exact_runtime Title sample_title_data = Inr sample_title"
  by (simp add: construct_def Title_def rarities_def sample_title_data_def sample_title_def)

lemma sample_case_docs:
  "sample_case_db ''Title'' = [sample_title_stored]"
  "sample_case_db ''title'' = []"
  by (simp_all add: sample_case_db_def empty_database_def)

lemma sample_case_find_one:
  "find_one (sample_case_db ''Title'') (ObjectId 1) = Some sample_title_stored"
  "find_one (sample_case_db ''title'') (ObjectId 1) = None"
  "\<not> list_ex (has_id (VObjectId (ObjectId 2))) (sample_case_db ''Title'')"
  by (simp_all add: sample_case_docs find_one_def has_id_def sample_title_stored_def)

lemma sample_rename_accepted:
  "construct exact_runtime Title
     (fmdrop ''id'' (serialize_doc exact_runtime sample_title_stored ++\<^sub>f sample_rename))
   = Inr sample_champion"
  by (simp add: construct_def Title_def rarities_def sample_rename_def sample_champion_def
      serialize_doc_def sample_title_stored_def)

lemma sample_rename_plain: "plain_keys (fmdrop ''_id'' sample_rename)"
  unfolding plain_keys_def fmpred_iff
proof (intro allI impI)
  fix k v
  assume "fmlookup (fmdrop ''_id'' sample_rename) k = Some v"
  then have "k = ''name''"
    by (simp add: sample_rename_def split: if_splits)
  then show "plain_key k"
    by (simp add: plain_key_def)
qed

section \<open>The claims\<close>

text \<open>
  C1. For a registered collection and a record \<open>P\<close> that the collection's model
  accepts, inserting \<open>P\<close> with \<open>create_document\<close> and reading the returned identifier
  back with \<open>get_document_by_id\<close> gives \<open>P\<close> together with the three fields the
  store adapter assigns: \<open>id\<close> (the returned identifier), \<open>created_at\<close> and
  \<open>updated_at\<close> (the two clock readings, as the store keeps them, in ISO format).
\<close>

theorem create_then_get_roundtrip:
  assumes "get_model_by_collection E c = Some m"
    and "construct E m raw = Inr P"
    and "fst (create_document E db c (BaseModel P) now1 now2 oid) = Inr ident"
  shows "get_document_by_id E (snd (create_document E db c (BaseModel P) now1 now2 oid)) c ident
         = Inr (Some (fmupd ''id'' (VStr ident)
              (fmupd ''updated_at'' (VStr (isoformat E (ms_floor now2)))
                (fmupd ''created_at'' (VStr (isoformat E (ms_floor now1))) P))))"
proof -
  note cp = construct_plain [OF assms(1,2)]
  have noid: "fmlookup P ''_id'' = None"
    by (rule cp(2)) (simp add: reserved_keys_def)
  let ?stored = "fmupd ''_id'' (VObjectId oid)
                     (fmupd ''updated_at'' (VDatetime (ms_floor now2))
                       (fmupd ''created_at'' (VDatetime (ms_floor now1))
                         (fmmap bson_roundtrip P)))"
  from create_document_new [of "BaseModel P", OF _ assms(3)] noid
  obtain st where db: "db = Some st" and ident: "ident = oid_str oid"
    and fresh: "\<not> list_ex (has_id (VObjectId oid)) (st c)"
    and snd: "snd (create_document E db c (BaseModel P) now1 now2 oid)
               = Some (st(c := st c @ [?stored]))"
    by auto
  have found: "find_one (st c @ [?stored]) oid = Some ?stored"
    unfolding find_one_def by (rule find_snoc_new [OF fresh]) (simp add: has_id_def)
  have ser: "serialize_doc E ?stored
       = fmupd ''id'' (VStr ident)
              (fmupd ''updated_at'' (VStr (isoformat E (ms_floor now2)))
                (fmupd ''created_at'' (VStr (isoformat E (ms_floor now1))) P))"
  proof (rule fmap_ext)
    fix k
    have P: "map_option (\<lambda>v. case v of VDatetime t \<Rightarrow> VStr (isoformat E t) | _ \<Rightarrow> v)
               (map_option bson_roundtrip (fmlookup P k)) = fmlookup P k"
    proof (cases "fmlookup P k")
      case None
      then show ?thesis by simp
    next
      case (Some x)
      with cp(1) have "plain x" by blast
      with Some show ?thesis
        by (cases x) (simp_all add: plain_def is_datetime_def)
    qed
    show "fmlookup (serialize_doc E ?stored) k = fmlookup (fmupd ''id'' (VStr ident)
              (fmupd ''updated_at'' (VStr (isoformat E (ms_floor now2)))
                (fmupd ''created_at'' (VStr (isoformat E (ms_floor now1))) P))) k"
      using P noid
      by (simp add: serialize_doc_with_id [where v = "VObjectId oid"] py_str_def ident)
  qed
  show ?thesis
    by (simp add: snd get_document_by_id_def ident ObjectId_of_str_oid_str found ser [unfolded ident])
qed

theorem create_then_get_roundtrip_witness:
  "get_model_by_collection exact_runtime ''title'' = Some Title
   \<and> construct exact_runtime Title sample_title_data = Inr sample_title
   \<and> fst (create_document exact_runtime (Some empty_database) ''title'' (BaseModel sample_title)
           (Datetime 1500) (Datetime 2700) (ObjectId 1)) = Inr (oid_str (ObjectId 1))
   \<and> get_document_by_id exact_runtime
         (snd (create_document exact_runtime (Some empty_database) ''title''
                 (BaseModel sample_title) (Datetime 1500) (Datetime 2700) (ObjectId 1)))
         ''title'' (oid_str (ObjectId 1))
       = Inr (Some (fmupd ''id'' (VStr (oid_str (ObjectId 1)))
              (fmupd ''updated_at'' (VStr (isoformat exact_runtime (ms_floor (Datetime 2700))))
                (fmupd ''created_at'' (VStr (isoformat exact_runtime (ms_floor (Datetime 1500))))
                   sample_title))))"
proof -
  have h1: "get_model_by_collection exact_runtime ''title'' = Some Title"
    by (simp add: get_model_by_collection_def MODEL_REGISTRY_def lower_def is_ascii_def lower_char_def)
  have h2: "construct exact_runtime Title sample_title_data = Inr sample_title"
    by (simp add: construct_def Title_def rarities_def sample_title_data_def sample_title_def)
  have h3: "fst (create_document exact_runtime (Some empty_database) ''title''
                  (BaseModel sample_title) (Datetime 1500) (Datetime 2700) (ObjectId 1))
            = Inr (oid_str (ObjectId 1))"
    by (simp add: create_document_def insert_one_def empty_database_def py_str_def
        sample_title_def Let_def)
  show ?thesis
    by (rule conjI [OF h1 conjI [OF h2 conjI [OF h3 create_then_get_roundtrip [OF h1 h2 h3]]]])
qed

text \<open>
  C2. A PUT on an existing document whose fields, merged into the existing document, the
  model refuses is rejected before \<open>update_document\<close> is called: the handler raises
  the validation error, the store is as it was, and a GET that follows returns the
  document unchanged.
\<close>

theorem update_invalid_merge_rejected:
  assumes "get_model_by_collection E collection = Some m"
    and "get_document_by_id E db collection doc_id = Inr (Some existing)"
    and "construct E m (fmdrop ''id'' (existing ++\<^sub>f data)) = Inl errs"
  shows "update E db collection doc_id data now = (Inl (ValidationError errs), db)
         \<and> get_document E (snd (update E db collection doc_id data now)) collection doc_id
             = (Inr (Document existing), db)"
proof -
  note ne = get_document_by_id_nonempty [OF assms(2)]
  have u: "update E db collection doc_id data now = (Inl (ValidationError errs), db)"
    using assms ne by (simp add: update_def)
  then show ?thesis
    using assms(1,2) ne by (simp add: get_document_def)
qed

theorem update_invalid_merge_rejected_witness:
  "get_model_by_collection exact_runtime ''loottable'' = Some LootTable
   \<and> get_document_by_id exact_runtime (Some sample_loottable_db) ''loottable''
         (oid_str (ObjectId 1))
       = Inr (Some (serialize_doc exact_runtime sample_loottable_stored))
   \<and> construct exact_runtime LootTable
         (fmdrop ''id''
            (serialize_doc exact_runtime sample_loottable_stored ++\<^sub>f sample_bad_entries))
       = Inl [''entries'']
   \<and> update exact_runtime (Some sample_loottable_db) ''loottable'' (oid_str (ObjectId 1))
         sample_bad_entries (Datetime 5000)
       = (Inl (ValidationError [''entries'']), Some sample_loottable_db)
   \<and> get_document exact_runtime
         (snd (update exact_runtime (Some sample_loottable_db) ''loottable''
                 (oid_str (ObjectId 1)) sample_bad_entries (Datetime 5000)))
         ''loottable'' (oid_str (ObjectId 1))
       = (Inr (Document (serialize_doc exact_runtime sample_loottable_stored)),
          Some sample_loottable_db)"
  by (rule conjI [OF get_model_loottable conjI [OF sample_loottable_found
        conjI [OF sample_bad_entries_rejected
          update_invalid_merge_rejected [OF get_model_loottable sample_loottable_found
            sample_bad_entries_rejected]]]])

text \<open>
  C3. \<open>update_document\<close> strips \<open>_id\<close>, \<open>id\<close>, \<open>created_at\<close> and \<open>updated_at\<close> from
  the payload before the merge: what it hands to \<open>$set\<close> holds none of the client's values
  for these keys, only the clock reading of the call as \<open>updated_at\<close> and the other
  fields of the payload. For a payload whose remaining keys are field names, the matched
  document is replaced, at its place in the collection, by a document in which the stored
  \<open>_id\<close>, \<open>id\<close> and \<open>created_at\<close> have the values they had, \<open>updated_at\<close> is the clock
  reading, every other field of the payload is written, and a field the payload does not
  mention is as it was; the new document is the one found under the identifier, and no
  other document and no other collection changes.
\<close>

theorem update_document_strips_reserved:
  assumes "ObjectId_of_str doc_id = Some oid"
    and "find_one (st collection_name) oid = Some d"
  shows "(\<forall>k. fmlookup (update_fields data now) k =
               (if k = ''updated_at'' then Some (VDatetime now)
                else if k \<in> {''_id'', ''id'', ''created_at''} then None
                else fmlookup data k))
         \<and> (plain_keys (fmdrop ''_id'' data) \<longrightarrow>
              (\<exists>st' d' i.
                 update_document E (Some st) collection_name doc_id data now
                   = (Inr True, Some st')
                 \<and> find_one (st' collection_name) oid = Some d'
                 \<and> i < length (st collection_name) \<and> st collection_name ! i = d
                 \<and> st' collection_name = (st collection_name)[i := d']
                 \<and> (\<forall>c'. c' \<noteq> collection_name \<longrightarrow> st' c' = st c')
                 \<and> fmlookup d' ''_id'' = fmlookup d ''_id''
                 \<and> fmlookup d' ''id'' = fmlookup d ''id''
                 \<and> fmlookup d' ''created_at'' = fmlookup d ''created_at''
                 \<and> fmlookup d' ''updated_at'' = Some (VDatetime (ms_floor now))
                 \<and> (\<forall>k. k \<notin> set reserved_keys \<longrightarrow>
                        fmlookup d' k = (case fmlookup data k of
                                           None \<Rightarrow> fmlookup d k
                                         | Some v \<Rightarrow> Some (bson_roundtrip v)))))"
proof (intro conjI impI allI)
  fix k
  show "fmlookup (update_fields data now) k =
          (if k = ''updated_at'' then Some (VDatetime now)
           else if k \<in> {''_id'', ''id'', ''created_at''} then None
           else fmlookup data k)"
    by (auto simp: update_fields_lookup reserved_keys_def)
next
  assume plain: "plain_keys (fmdrop ''_id'' data)"
  let ?d' = "d ++\<^sub>f fmmap bson_roundtrip (update_fields data now)"
  from update_document_effect [where st = st and c = collection_name and E = E and now = now, OF assms plain]
  obtain i where i: "i < length (st collection_name)" "st collection_name ! i = d"
    and u: "update_document E (Some st) collection_name doc_id data now
              = (Inr True, Some (st(collection_name := (st collection_name)[i := ?d'])))"
    and f: "find_one ((st collection_name)[i := ?d']) oid = Some ?d'"
    by blast
  let ?st' = "st(collection_name := (st collection_name)[i := ?d'])"
  note fields = updated_document_fields [where d = d and data = data and now = now]
  have "update_document E (Some st) collection_name doc_id data now = (Inr True, Some ?st')
        \<and> find_one (?st' collection_name) oid = Some ?d'
        \<and> i < length (st collection_name) \<and> st collection_name ! i = d
        \<and> ?st' collection_name = (st collection_name)[i := ?d']
        \<and> (\<forall>c'. c' \<noteq> collection_name \<longrightarrow> ?st' c' = st c')
        \<and> fmlookup ?d' ''_id'' = fmlookup d ''_id''
        \<and> fmlookup ?d' ''id'' = fmlookup d ''id''
        \<and> fmlookup ?d' ''created_at'' = fmlookup d ''created_at''
        \<and> fmlookup ?d' ''updated_at'' = Some (VDatetime (ms_floor now))
        \<and> (\<forall>k. k \<notin> set reserved_keys \<longrightarrow>
               fmlookup ?d' k = (case fmlookup data k of
                                   None \<Rightarrow> fmlookup d k
                                 | Some v \<Rightarrow> Some (bson_roundtrip v)))"
    using u f i fields by simp
  then show "\<exists>st' d' i.
                 update_document E (Some st) collection_name doc_id data now
                   = (Inr True, Some st')
                 \<and> find_one (st' collection_name) oid = Some d'
                 \<and> i < length (st collection_name) \<and> st collection_name ! i = d
                 \<and> st' collection_name = (st collection_name)[i := d']
                 \<and> (\<forall>c'. c' \<noteq> collection_name \<longrightarrow> st' c' = st c')
                 \<and> fmlookup d' ''_id'' = fmlookup d ''_id''
                 \<and> fmlookup d' ''id'' = fmlookup d ''id''
                 \<and> fmlookup d' ''created_at'' = fmlookup d ''created_at''
                 \<and> fmlookup d' ''updated_at'' = Some (VDatetime (ms_floor now))
                 \<and> (\<forall>k. k \<notin> set reserved_keys \<longrightarrow>
                        fmlookup d' k = (case fmlookup data k of
                                           None \<Rightarrow> fmlookup d k
                                         | Some v \<Rightarrow> Some (bson_roundtrip v)))"
    by (intro exI [of _ ?st'] exI [of _ ?d'] exI [of _ i])
qed

theorem update_document_strips_reserved_witness:
  "ObjectId_of_str (oid_str (ObjectId 1)) = Some (ObjectId 1)
   \<and> find_one (sample_loottable_db ''loottable'') (ObjectId 1) = Some sample_loottable_stored
   \<and> plain_keys (fmdrop ''_id'' sample_update)
   \<and> fmlookup sample_update ''created_at'' = Some (VStr ''1999-01-01'')
   \<and> fmlookup (update_fields sample_update (Datetime 5500)) ''created_at'' = None
   \<and> (\<exists>st' d'.
         update_document exact_runtime (Some sample_loottable_db) ''loottable''
             (oid_str (ObjectId 1)) sample_update (Datetime 5500)
           = (Inr True, Some st')
         \<and> find_one (st' ''loottable'') (ObjectId 1) = Some d'
         \<and> st' ''loottable'' = [d']
         \<and> st' ''item'' = sample_loottable_db ''item''
         \<and> fmlookup d' ''_id'' = Some (VObjectId (ObjectId 1))
         \<and> fmlookup d' ''id'' = None
         \<and> fmlookup d' ''created_at'' = Some (VDatetime (Datetime 0))
         \<and> fmlookup d' ''updated_at'' = Some (VDatetime (Datetime 5000))
         \<and> fmlookup d' ''name'' = Some (VStr ''renamed'')
         \<and> fmlookup d' ''rolls'' = Some (VInt 1))"
proof -
  note t = update_document_strips_reserved
    [where st = sample_loottable_db and collection_name = "''loottable''"
       and E = exact_runtime and data = sample_update and now = "Datetime 5500",
     OF ObjectId_of_str_oid_str sample_loottable_find_one]
  have c: "fmlookup sample_update ''created_at'' = Some (VStr ''1999-01-01'')"
    by (simp add: sample_update_def)
  from t have s: "fmlookup (update_fields sample_update (Datetime 5500)) ''created_at'' = None"
    by simp
  have e: "\<exists>st' d'.
         update_document exact_runtime (Some sample_loottable_db) ''loottable''
             (oid_str (ObjectId 1)) sample_update (Datetime 5500)
           = (Inr True, Some st')
         \<and> find_one (st' ''loottable'') (ObjectId 1) = Some d'
         \<and> st' ''loottable'' = [d']
         \<and> st' ''item'' = sample_loottable_db ''item''
         \<and> fmlookup d' ''_id'' = Some (VObjectId (ObjectId 1))
         \<and> fmlookup d' ''id'' = None
         \<and> fmlookup d' ''created_at'' = Some (VDatetime (Datetime 0))
         \<and> fmlookup d' ''updated_at'' = Some (VDatetime (Datetime 5000))
         \<and> fmlookup d' ''name'' = Some (VStr ''renamed'')
         \<and> fmlookup d' ''rolls'' = Some (VInt 1)"
    using t [THEN conjunct2, THEN mp, OF sample_update_plain]
  proof (elim exE conjE)
    fix st' d' i
    assume u: "update_document exact_runtime (Some sample_loottable_db) ''loottable''
          (oid_str (ObjectId 1)) sample_update (Datetime 5500) = (Inr True, Some st')"
      and f: "find_one (st' ''loottable'') (ObjectId 1) = Some d'"
      and i: "i < length (sample_loottable_db ''loottable'')"
      and l: "st' ''loottable'' = (sample_loottable_db ''loottable'')[i := d']"
      and o: "\<forall>c'. c' \<noteq> ''loottable'' \<longrightarrow> st' c' = sample_loottable_db c'"
      and k1: "fmlookup d' ''_id'' = fmlookup sample_loottable_stored ''_id''"
      and k2: "fmlookup d' ''id'' = fmlookup sample_loottable_stored ''id''"
      and k3: "fmlookup d' ''created_at'' = fmlookup sample_loottable_stored ''created_at''"
      and k4: "fmlookup d' ''updated_at'' = Some (VDatetime (ms_floor (Datetime 5500)))"
      and k5: "\<forall>k. k \<notin> set reserved_keys \<longrightarrow>
                 fmlookup d' k = (case fmlookup sample_update k of
                                    None \<Rightarrow> fmlookup sample_loottable_stored k
                                  | Some v \<Rightarrow> Some (bson_roundtrip v))"
    from i l have l': "st' ''loottable'' = [d']"
      by (simp add: sample_loottable_db_def)
    from o have o': "st' ''item'' = sample_loottable_db ''item''" by simp
    from k5 [THEN spec, of "''name''"] have n: "fmlookup d' ''name'' = Some (VStr ''renamed'')"
      by (simp add: reserved_keys_def sample_update_def)
    from k5 [THEN spec, of "''rolls''"] have r: "fmlookup d' ''rolls'' = Some (VInt 1)"
      by (simp add: reserved_keys_def sample_update_def sample_loottable_stored_def)
    from k1 have j1: "fmlookup d' ''_id'' = Some (VObjectId (ObjectId 1))"
      by (simp add: sample_loottable_stored_def)
    from k2 have j2: "fmlookup d' ''id'' = None"
      by (simp add: sample_loottable_stored_def)
    from k3 have j3: "fmlookup d' ''created_at'' = Some (VDatetime (Datetime 0))"
      by (simp add: sample_loottable_stored_def)
    from k4 have j4: "fmlookup d' ''updated_at'' = Some (VDatetime (Datetime 5000))"
      by (simp add: ms_floor_def)
    show ?thesis
      by (rule exI [of _ st'], rule exI [of _ d'])
        (rule conjI [OF u conjI [OF f conjI [OF l' conjI [OF o' conjI [OF j1 conjI [OF j2
           conjI [OF j3 conjI [OF j4 conjI [OF n r]]]]]]]]])
  qed
  show ?thesis
    by (rule conjI [OF ObjectId_of_str_oid_str conjI [OF sample_loottable_find_one
          conjI [OF sample_update_plain conjI [OF c conjI [OF s e]]]]])
qed



text \<open>
  C5 (as the code has it). A POST on \<open>/api/{collection}\<close> for a registered collection
  whose payload the model refuses leaves \<open>create\<close> as the uncaught validation error of
  \<open>model(**payload.data)\<close>, before the store is touched: nothing is written, no
  \<open>HTTPException\<close> is raised, and the response is the server's default 500, where the
  specification has a 422 with the detail of the fields.
\<close>

theorem create_invalid_payload:
  assumes "get_model_by_collection E collection = Some m"
    and "construct E m data = Inl errs"
  shows "create E db collection data now1 now2 oid = (Inl (ValidationError errs), db)
         \<and> status_code (fst (create E db collection data now1 now2 oid)) = 500"
  using assms by (simp add: create_def status_code_def)

theorem create_invalid_payload_witness:
  "get_model_by_collection exact_runtime ''item'' = Some Item
   \<and> construct exact_runtime Item sample_bad_item = Inl [''name'', ''item_type'']
   \<and> create exact_runtime (Some empty_database) ''item'' sample_bad_item
         (Datetime 0) (Datetime 0) (ObjectId 1)
       = (Inl (ValidationError [''name'', ''item_type'']), Some empty_database)
   \<and> status_code (fst (create exact_runtime (Some empty_database) ''item'' sample_bad_item
         (Datetime 0) (Datetime 0) (ObjectId 1))) = 500"
  by (rule conjI [OF get_model_item conjI [OF sample_bad_item_rejected
        create_invalid_payload [OF get_model_item sample_bad_item_rejected]]])

text \<open>
  The request of the specification, \<open>POST /api/item\<close> with
  \<open>{"data": {"item_type": "not-a-real-type"}}\<close>, is refused by the model and is not
  answered 422.
\<close>

theorem create_invalid_payload_not_422:
  "get_model_by_collection exact_runtime ''item'' = Some Item
   \<and> construct exact_runtime Item sample_bad_item = Inl [''name'', ''item_type'']
   \<and> status_code (fst (create exact_runtime (Some empty_database) ''item'' sample_bad_item
         (Datetime 0) (Datetime 0) (ObjectId 1))) \<noteq> 422"
  by (simp add: get_model_item sample_bad_item_rejected create_def status_code_def)

text \<open>
  C6 (as the code has it). Every document returned by \<open>get_documents\<close> or
  \<open>get_document_by_id\<close> is \<open>serialize_doc\<close> of a stored document. When the stored
  \<open>_id\<close> is not null it is returned as the string \<open>id\<close> and the key \<open>_id\<close> is gone,
  which is always so for \<open>get_document_by_id\<close>. When the stored \<open>_id\<close> is null (or
  there is none) the record has the keys of the stored document, \<open>_id\<close> and a stored
  \<open>id\<close> included. In both cases no key is added beyond \<open>id\<close>, every field other than
  \<open>_id\<close> and \<open>id\<close> that is a datetime is returned in its ISO format and every other
  such field is returned as stored, a datetime inside a list or an embedded document
  included; no field of the returned record is itself a datetime.
\<close>

theorem returned_documents_serialized:
  assumes "(get_documents E db c flt limit = Inr rs \<and> r \<in> set rs)
           \<or> get_document_by_id E db c doc_id = Inr (Some r)"
  shows "(\<exists>s \<in> set (documents_of db c). r = serialize_doc E s
            \<and> (\<forall>v. fmlookup s ''_id'' = Some v \<longrightarrow> v \<noteq> VNone \<longrightarrow>
                   fmlookup r ''id'' = Some (VStr (py_str E v)) \<and> fmlookup r ''_id'' = None)
            \<and> (fmlookup s ''_id'' = None \<or> fmlookup s ''_id'' = Some VNone \<longrightarrow>
                   fmlookup r ''_id'' = fmlookup s ''_id''
                   \<and> fmlookup r ''id''
                       = map_option (\<lambda>v. case v of VDatetime t \<Rightarrow> VStr (isoformat E t) | _ \<Rightarrow> v)
                           (fmlookup s ''id''))
            \<and> (\<forall>k. k \<noteq> ''_id'' \<longrightarrow> k \<noteq> ''id'' \<longrightarrow>
                   fmlookup r k
                     = map_option (\<lambda>v. case v of VDatetime t \<Rightarrow> VStr (isoformat E t) | _ \<Rightarrow> v)
                         (fmlookup s k)))
         \<and> (\<forall>k v. fmlookup r k = Some v \<longrightarrow> \<not> is_datetime v)
         \<and> (get_document_by_id E db c doc_id = Inr (Some r) \<longrightarrow>
               fmlookup r ''_id'' = None
               \<and> (\<exists>oid. ObjectId_of_str doc_id = Some oid
                         \<and> fmlookup r ''id'' = Some (VStr (oid_str oid))))"
proof -
  from assms obtain s where s: "s \<in> set (documents_of db c)" and r: "r = serialize_doc E s"
    using get_documents_from_store get_document_by_id_from_store by blast
  have 1: "\<forall>v. fmlookup s ''_id'' = Some v \<longrightarrow> v \<noteq> VNone \<longrightarrow>
              fmlookup r ''id'' = Some (VStr (py_str E v)) \<and> fmlookup r ''_id'' = None"
    by (simp add: r serialize_doc_id)
  have 2: "fmlookup s ''_id'' = None \<or> fmlookup s ''_id'' = Some VNone \<longrightarrow>
              fmlookup r ''_id'' = fmlookup s ''_id''
              \<and> fmlookup r ''id''
                  = map_option (\<lambda>v. case v of VDatetime t \<Rightarrow> VStr (isoformat E t) | _ \<Rightarrow> v)
                      (fmlookup s ''id'')"
  proof
    assume n: "fmlookup s ''_id'' = None \<or> fmlookup s ''_id'' = Some VNone"
    from n have "fmlookup r ''_id'' = fmlookup s ''_id''"
      unfolding r serialize_doc_null_id [OF n] by auto
    then show "fmlookup r ''_id'' = fmlookup s ''_id''
        \<and> fmlookup r ''id''
            = map_option (\<lambda>v. case v of VDatetime t \<Rightarrow> VStr (isoformat E t) | _ \<Rightarrow> v)
                (fmlookup s ''id'')"
      unfolding r serialize_doc_null_id [OF n] by simp
  qed
  have 3: "\<forall>k. k \<noteq> ''_id'' \<longrightarrow> k \<noteq> ''id'' \<longrightarrow>
              fmlookup r k
                = map_option (\<lambda>v. case v of VDatetime t \<Rightarrow> VStr (isoformat E t) | _ \<Rightarrow> v)
                    (fmlookup s k)"
    by (simp add: r serialize_doc_other)
  have 4: "\<forall>k v. fmlookup r k = Some v \<longrightarrow> \<not> is_datetime v"
    using serialize_doc_no_datetime r by blast
  have 5: "fmlookup r ''_id'' = None
           \<and> (\<exists>oid. ObjectId_of_str doc_id = Some oid
                     \<and> fmlookup r ''id'' = Some (VStr (oid_str oid)))"
    if "get_document_by_id E db c doc_id = Inr (Some r)"
  proof -
    from get_document_by_id_from_store [OF that]
    obtain s' oid where "r = serialize_doc E s'" "ObjectId_of_str doc_id = Some oid"
      "fmlookup s' ''_id'' = Some (VObjectId oid)"
      by blast
    then show ?thesis
      using serialize_doc_id [of s' "VObjectId oid" E] by (simp add: py_str_def)
  qed
  from s r 1 2 3 have 6: "\<exists>s \<in> set (documents_of db c). r = serialize_doc E s
            \<and> (\<forall>v. fmlookup s ''_id'' = Some v \<longrightarrow> v \<noteq> VNone \<longrightarrow>
                   fmlookup r ''id'' = Some (VStr (py_str E v)) \<and> fmlookup r ''_id'' = None)
            \<and> (fmlookup s ''_id'' = None \<or> fmlookup s ''_id'' = Some VNone \<longrightarrow>
                   fmlookup r ''_id'' = fmlookup s ''_id''
                   \<and> fmlookup r ''id''
                       = map_option (\<lambda>v. case v of VDatetime t \<Rightarrow> VStr (isoformat E t) | _ \<Rightarrow> v)
                           (fmlookup s ''id''))
            \<and> (\<forall>k. k \<noteq> ''_id'' \<longrightarrow> k \<noteq> ''id'' \<longrightarrow>
                   fmlookup r k
                     = map_option (\<lambda>v. case v of VDatetime t \<Rightarrow> VStr (isoformat E t) | _ \<Rightarrow> v)
                         (fmlookup s k))"
    by (intro bexI [of _ s] conjI)
  show ?thesis
    by (rule conjI [OF 6 conjI [OF 4 impI [OF 5]]])
qed

theorem returned_documents_serialized_witness:
  "get_document_by_id exact_runtime (Some sample_loottable_db) ''loottable''
       (oid_str (ObjectId 1))
     = Inr (Some (serialize_doc exact_runtime sample_loottable_stored))
   \<and> fmlookup (serialize_doc exact_runtime sample_loottable_stored) ''created_at''
       = Some (VStr (isoformat exact_runtime (Datetime 0)))
   \<and> \<not> is_datetime (VStr (isoformat exact_runtime (Datetime 0)))
   \<and> fmlookup (serialize_doc exact_runtime sample_loottable_stored) ''_id'' = None
   \<and> (\<exists>oid. ObjectId_of_str (oid_str (ObjectId 1)) = Some oid
            \<and> fmlookup (serialize_doc exact_runtime sample_loottable_stored) ''id''
                = Some (VStr (oid_str oid)))
   \<and> get_documents exact_runtime (Some sample_null_db) ''title'' None None
       = Inr [serialize_doc exact_runtime sample_null_stored]
   \<and> fmlookup (serialize_doc exact_runtime sample_null_stored) ''_id'' = Some VNone
   \<and> fmlookup (serialize_doc exact_runtime sample_null_stored) ''id'' = None"
proof -
  note t = returned_documents_serialized [of exact_runtime "Some sample_loottable_db"
      "''loottable''" None None "[]" "serialize_doc exact_runtime sample_loottable_stored"
      "oid_str (ObjectId 1)", OF disjI2, OF sample_loottable_found]
  note t2 = t [THEN conjunct2]
  have c: "fmlookup (serialize_doc exact_runtime sample_loottable_stored) ''created_at''
             = Some (VStr (isoformat exact_runtime (Datetime 0)))"
    by (simp add: serialize_doc_other sample_loottable_stored_def)
  have m: "serialize_doc exact_runtime sample_null_stored
             \<in> set [serialize_doc exact_runtime sample_null_stored]"
    by simp
  note n = returned_documents_serialized [of exact_runtime "Some sample_null_db"
      "''title''" None None "[serialize_doc exact_runtime sample_null_stored]"
      "serialize_doc exact_runtime sample_null_stored" "[]",
      OF disjI1, OF conjI, OF sample_null_listed m, THEN conjunct1]
  have i: "fmlookup (serialize_doc exact_runtime sample_null_stored) ''_id'' = Some VNone
           \<and> fmlookup (serialize_doc exact_runtime sample_null_stored) ''id'' = None"
    using n
  proof (elim bexE conjE)
    fix s
    assume "s \<in> set (documents_of (Some sample_null_db) ''title'')"
    then have s: "s = sample_null_stored"
      by (simp add: documents_of_def sample_null_db_def)
    assume "fmlookup s ''_id'' = None \<or> fmlookup s ''_id'' = Some VNone \<longrightarrow>
      fmlookup (serialize_doc exact_runtime sample_null_stored) ''_id'' = fmlookup s ''_id''
      \<and> fmlookup (serialize_doc exact_runtime sample_null_stored) ''id''
          = map_option
              (\<lambda>v. case v of VDatetime t \<Rightarrow> VStr (isoformat exact_runtime t) | _ \<Rightarrow> v)
              (fmlookup s ''id'')"
    then show ?thesis
      by (simp add: s sample_null_stored_def)
  qed
  show ?thesis
    by (rule conjI [OF sample_loottable_found conjI [OF c
          conjI [OF t2 [THEN conjunct1, THEN spec, THEN spec, THEN mp, OF c]
            conjI [OF t2 [THEN conjunct2, THEN mp, OF sample_loottable_found, THEN conjunct1]
              conjI [OF t2 [THEN conjunct2, THEN mp, OF sample_loottable_found, THEN conjunct2]
                conjI [OF sample_null_listed i]]]]]])
qed

text \<open>
  Two records that the adapter returns otherwise. A document inserted with a null \<open>_id\<close>
  is listed with its \<open>_id\<close> key and without an \<open>id\<close>. A document inserted with a
  datetime inside an embedded document is listed with that datetime as it is stored, not
  as text.
\<close>

theorem null_id_and_nested_datetime_returned:
  "(\<exists>r. get_documents exact_runtime
           (snd (create_document exact_runtime (Some empty_database) ''title''
                   (PlainDict sample_null_id) (Datetime 1500) (Datetime 2700) (ObjectId 1)))
           ''title'' None None = Inr [r]
        \<and> fmlookup r ''_id'' = Some VNone \<and> fmlookup r ''id'' = None)
   \<and> (\<exists>r. get_documents exact_runtime
           (snd (create_document exact_runtime (Some empty_database) ''title''
                   (PlainDict sample_nested) (Datetime 1500) (Datetime 2700) (ObjectId 1)))
           ''title'' None None = Inr [r]
        \<and> fmlookup r ''_id'' = None \<and> fmlookup r ''id'' = Some (VStr (oid_str (ObjectId 1)))
        \<and> fmlookup r ''meta''
            = Some (VDict (fmap_of_list [(''seen'', VDatetime (Datetime 0))])))"
proof (rule conjI)
  show "\<exists>r. get_documents exact_runtime
           (snd (create_document exact_runtime (Some empty_database) ''title''
                   (PlainDict sample_null_id) (Datetime 1500) (Datetime 2700) (ObjectId 1)))
           ''title'' None None = Inr [r]
        \<and> fmlookup r ''_id'' = Some VNone \<and> fmlookup r ''id'' = None"
    by (simp add: sample_null_created sample_null_listed serialize_doc_null_id
        sample_null_stored_def)
  show "\<exists>r. get_documents exact_runtime
           (snd (create_document exact_runtime (Some empty_database) ''title''
                   (PlainDict sample_nested) (Datetime 1500) (Datetime 2700) (ObjectId 1)))
           ''title'' None None = Inr [r]
        \<and> fmlookup r ''_id'' = None \<and> fmlookup r ''id'' = Some (VStr (oid_str (ObjectId 1)))
        \<and> fmlookup r ''meta''
            = Some (VDict (fmap_of_list [(''seen'', VDatetime (Datetime 0))]))"
    by (simp add: create_document_def insert_one_def empty_database_def sample_nested_def
        Let_def has_id_def get_documents_def find_docs_def serialize_doc_def fmmap_fmupd
        ms_floor_def py_str_def)
qed

text \<open>
  C7 (as the code has it). \<open>create_document\<close> reads the clock twice, first for
  \<open>created_at\<close> and then for \<open>updated_at\<close>, where the specification has \<open>updated_at\<close>
  set equal to \<open>created_at\<close>. After a successful call the new document holds the two
  readings, each kept to the millisecond, so the two fields are equal exactly when both
  readings fall in the same millisecond.
\<close>

theorem create_document_timestamps:
  assumes "fst (create_document E db c data now1 now2 oid) = Inr ident"
  shows "\<exists>d. documents_of (snd (create_document E db c data now1 now2 oid)) c
                = documents_of db c @ [d]
           \<and> fmlookup d ''created_at'' = Some (VDatetime (ms_floor now1))
           \<and> fmlookup d ''updated_at'' = Some (VDatetime (ms_floor now2))
           \<and> (fmlookup d ''created_at'' = fmlookup d ''updated_at''
                \<longleftrightarrow> ms_floor now1 = ms_floor now2)"
proof (cases db)
  case None
  with assms show ?thesis by (simp add: create_document_def)
next
  case (Some st)
  let ?doc = "fmupd ''updated_at'' (VDatetime now2) (fmupd ''created_at'' (VDatetime now1) (to_dict data))"
  let ?ident = "case fmlookup ?doc ''_id'' of None \<Rightarrow> VObjectId oid | Some v \<Rightarrow> v"
  let ?d = "fmmap bson_roundtrip (fmupd ''_id'' ?ident ?doc)"
  from assms Some
  have "documents_of (snd (create_document E db c data now1 now2 oid)) c = documents_of db c @ [?d]"
    by (auto simp: create_document_def insert_one_def Let_def documents_of_def split: if_splits)
  moreover have "fmlookup ?d ''created_at'' = Some (VDatetime (ms_floor now1))"
    "fmlookup ?d ''updated_at'' = Some (VDatetime (ms_floor now2))"
    by simp_all
  ultimately show ?thesis by (intro exI [of _ ?d]) simp
qed

theorem create_document_timestamps_witness:
  "fst (create_document exact_runtime (Some empty_database) ''title'' (BaseModel sample_title)
          (Datetime 1500) (Datetime 2700) (ObjectId 1)) = Inr (oid_str (ObjectId 1))
   \<and> (\<exists>d. documents_of
              (snd (create_document exact_runtime (Some empty_database) ''title''
                      (BaseModel sample_title) (Datetime 1500) (Datetime 2700) (ObjectId 1)))
              ''title''
            = documents_of (Some empty_database) ''title'' @ [d]
         \<and> fmlookup d ''created_at'' = Some (VDatetime (ms_floor (Datetime 1500)))
         \<and> fmlookup d ''updated_at'' = Some (VDatetime (ms_floor (Datetime 2700)))
         \<and> (fmlookup d ''created_at'' = fmlookup d ''updated_at''
              \<longleftrightarrow> ms_floor (Datetime 1500) = ms_floor (Datetime 2700)))"
  by (rule conjI [OF sample_title_created create_document_timestamps [OF sample_title_created]])

text \<open>
  A call whose two clock readings are 1.2 milliseconds apart persists a record whose
  \<open>updated_at\<close> differs from its \<open>created_at\<close>.
\<close>

theorem create_document_timestamps_differ:
  "fst (create_document exact_runtime (Some empty_database) ''title'' (BaseModel sample_title)
          (Datetime 1500) (Datetime 2700) (ObjectId 1)) = Inr (oid_str (ObjectId 1))
   \<and> map (\<lambda>d. (fmlookup d ''created_at'', fmlookup d ''updated_at''))
         (documents_of
            (snd (create_document exact_runtime (Some empty_database) ''title''
                    (BaseModel sample_title) (Datetime 1500) (Datetime 2700) (ObjectId 1)))
            ''title'')
       = [(Some (VDatetime (Datetime 1000)), Some (VDatetime (Datetime 2000)))]"
  by (simp add: create_document_def insert_one_def empty_database_def py_str_def
      sample_title_def Let_def documents_of_def ms_floor_def)

text \<open>
  C8. A GET on \<open>/api/{collection}\<close> whose collection is not in the registry is answered
  404 whatever the state of the store, also when no database is configured: the registry
  is consulted before the store, and the store is returned as it was.
\<close>

theorem list_documents_unknown_collection:
  assumes "get_model_by_collection E collection = None"
  shows "list_documents E db collection limit
           = (Inl (HTTPException 404 ''Unknown collection''), db)
         \<and> status_code (fst (list_documents E db collection limit)) = 404"
  using assms by (simp add: list_documents_def status_code_def)

theorem list_documents_unknown_collection_witness:
  "get_model_by_collection exact_runtime ''unknowncollection'' = None
   \<and> list_documents exact_runtime None ''unknowncollection'' (Some 100)
       = (Inl (HTTPException 404 ''Unknown collection''), None)
   \<and> status_code (fst (list_documents exact_runtime None ''unknowncollection'' (Some 100))) = 404"
proof -
  have h: "get_model_by_collection exact_runtime ''unknowncollection'' = None"
    by (simp add: get_model_by_collection_def MODEL_REGISTRY_def lower_def is_ascii_def lower_char_def)
  show ?thesis
    using h list_documents_unknown_collection [OF h, where db = None and limit = "Some 100"]
    by (rule conjI)
qed

text \<open>
  C9 (as the code has it). \<open>get_documents\<close> returns the serialized documents that match
  the filter, all documents of the collection when no filter is given. With no limit or
  the limit 0 it returns all of them; a positive limit \<open>n\<close> gives the first \<open>n\<close> of
  them; a negative limit is passed to the cursor as it is, which takes it for its absolute
  value, so at most \<open>-n\<close> documents are returned.
\<close>

theorem get_documents_limit:
  assumes "matching = find_docs E (st c) (case flt of None \<Rightarrow> fmempty | Some f \<Rightarrow> f)"
  shows "\<exists>rs. get_documents E (Some st) c flt limit = Inr rs
           \<and> (flt = None \<longrightarrow> matching = st c)
           \<and> (limit = None \<or> limit = Some 0 \<longrightarrow> rs = map (serialize_doc E) matching)
           \<and> (\<forall>n. limit = Some n \<longrightarrow> 0 < n \<longrightarrow>
                  rs = map (serialize_doc E) (take (nat n) matching)
                  \<and> length rs = min (nat n) (length matching))
           \<and> (\<forall>n. limit = Some n \<longrightarrow> n < 0 \<longrightarrow>
                  rs = map (serialize_doc E) (take (nat (- n)) matching)
                  \<and> length rs \<le> nat (- n))"
  using assms
  by (cases limit) (auto simp: get_documents_def find_docs_def cursor_limit_def Let_def)

theorem get_documents_limit_witness:
  "sample_five_db ''title''
     = find_docs exact_runtime (sample_five_db ''title'') (case None of None \<Rightarrow> fmempty | Some f \<Rightarrow> f)
   \<and> (\<exists>rs. get_documents exact_runtime (Some sample_five_db) ''title'' None (Some 2) = Inr rs
           \<and> rs = map (serialize_doc exact_runtime) (take (nat 2) (sample_five_db ''title''))
           \<and> length rs = min (nat 2) (length (sample_five_db ''title'')))
   \<and> length (sample_five_db ''title'') = 5"
proof -
  have h: "sample_five_db ''title''
     = find_docs exact_runtime (sample_five_db ''title'') (case None of None \<Rightarrow> fmempty | Some f \<Rightarrow> f)"
    by (simp add: find_docs_def)
  have l: "length (sample_five_db ''title'') = 5"
    by (simp add: sample_five_db_def)
  from get_documents_limit
         [where st = sample_five_db and c = "''title''" and limit = "Some 2", OF h]
  have "\<exists>rs. get_documents exact_runtime (Some sample_five_db) ''title'' None (Some 2) = Inr rs
           \<and> rs = map (serialize_doc exact_runtime) (take (nat 2) (sample_five_db ''title''))
           \<and> length rs = min (nat 2) (length (sample_five_db ''title''))"
    by auto
  with h l show ?thesis by blast
qed

text \<open>
  Listing five documents with the limit -2 returns two documents: the number of returned
  records is not capped at the limit.
\<close>

theorem get_documents_negative_limit:
  "length (sample_five_db ''title'') = 5
   \<and> (case get_documents exact_runtime (Some sample_five_db) ''title'' None (Some (- 2)) of
         Inl e \<Rightarrow> False
       | Inr rs \<Rightarrow> length rs = 2 \<and> \<not> int (length rs) \<le> - 2)"
  by (simp add: get_documents_def find_docs_def cursor_limit_def sample_five_db_def)

text \<open>
  C10. Every route lowercases the \<open>{collection}\<close> path parameter for the registry lookup
  only and passes it to the store as it is. Two names \<open>c1\<close> and \<open>c2\<close> that differ only
  in letter case resolve to the same model, but they name different collections of the
  store. A request under \<open>c1\<close> acts on the documents stored under \<open>c1\<close>: the list is the
  serialized documents of \<open>c1\<close>, cut to the limit; an identifier is looked up among the
  documents of \<open>c1\<close>, so that get returns the document found there, delete removes it,
  update rewrites it in its place, and all three answer 404 when \<open>c1\<close> holds no such
  document, whatever \<open>c2\<close> holds; create appends the new document to \<open>c1\<close>. None of
  create, update and delete under \<open>c1\<close> changes the documents under \<open>c2\<close>, and a list
  or get under \<open>c2\<close> answers after such a request as it did before.
\<close>

theorem collection_name_case:
  assumes "lower E c1 = lower E c2" and "c1 \<noteq> c2"
  shows "get_model_by_collection E c1 = get_model_by_collection E c2
         \<and> documents_of (snd (create E db c1 data now1 now2 oid)) c2 = documents_of db c2
         \<and> documents_of (snd (update E db c1 doc_id data now)) c2 = documents_of db c2
         \<and> documents_of (snd (delete E db c1 doc_id)) c2 = documents_of db c2
         \<and> fst (list_documents E (snd (create E db c1 data now1 now2 oid)) c2 limit)
             = fst (list_documents E db c2 limit)
         \<and> fst (get_document E (snd (create E db c1 data now1 now2 oid)) c2 doc_id')
             = fst (get_document E db c2 doc_id')
         \<and> fst (list_documents E (snd (update E db c1 doc_id data now)) c2 limit)
             = fst (list_documents E db c2 limit)
         \<and> fst (get_document E (snd (update E db c1 doc_id data now)) c2 doc_id')
             = fst (get_document E db c2 doc_id')
         \<and> fst (list_documents E (snd (delete E db c1 doc_id)) c2 limit)
             = fst (list_documents E db c2 limit)
         \<and> fst (get_document E (snd (delete E db c1 doc_id)) c2 doc_id')
             = fst (get_document E db c2 doc_id')
         \<and> (\<forall>m. get_model_by_collection E c1 = Some m \<longrightarrow>
               list_documents E (Some st) c1 limit
                 = (Inr (Items (map (serialize_doc E)
                      (case limit of
                         None \<Rightarrow> st c1
                       | Some n \<Rightarrow> if n = 0 then st c1 else take (nat \<bar>n\<bar>) (st c1)))),
                    Some st)
               \<and> (\<forall>obj. construct E m data = Inr obj \<longrightarrow>
                      \<not> list_ex (has_id (VObjectId oid)) (st c1) \<longrightarrow>
                      (\<exists>d. create E (Some st) c1 data now1 now2 oid
                              = (Inr (NewId (oid_str oid)), Some (st(c1 := st c1 @ [d])))
                          \<and> fmlookup d ''_id'' = Some (VObjectId oid)
                          \<and> fmlookup d ''created_at'' = Some (VDatetime (ms_floor now1))
                          \<and> fmlookup d ''updated_at'' = Some (VDatetime (ms_floor now2))
                          \<and> (\<forall>k. k \<notin> set reserved_keys \<longrightarrow> fmlookup d k = fmlookup obj k)))
               \<and> (\<forall>oid'. ObjectId_of_str doc_id = Some oid' \<longrightarrow>
                      find_one (st c1) oid' = None \<longrightarrow>
                      get_document E (Some st) c1 doc_id
                        = (Inl (HTTPException 404 ''Not found''), Some st)
                      \<and> update E (Some st) c1 doc_id data now
                          = (Inl (HTTPException 404 ''Not found''), Some st)
                      \<and> delete E (Some st) c1 doc_id
                          = (Inl (HTTPException 404 ''Not found''), Some st))
               \<and> (\<forall>oid' d. ObjectId_of_str doc_id = Some oid' \<longrightarrow>
                      find_one (st c1) oid' = Some d \<longrightarrow>
                      get_document E (Some st) c1 doc_id
                        = (Inr (Document (serialize_doc E d)), Some st)
                      \<and> (\<exists>i < length (st c1). st c1 ! i = d
                            \<and> delete E (Some st) c1 doc_id
                                = (Inr Ok,
                                   Some (st(c1 := take i (st c1) @ drop (Suc i) (st c1)))))
                      \<and> (\<forall>obj. construct E m (fmdrop ''id'' (serialize_doc E d ++\<^sub>f data))
                                  = Inr obj \<longrightarrow>
                             plain_keys (fmdrop ''_id'' data) \<longrightarrow>
                             (\<exists>i < length (st c1). st c1 ! i = d
                                \<and> update E (Some st) c1 doc_id data now
                                    = (Inr Ok,
                                       Some (st(c1 := (st c1)
                                         [i := d ++\<^sub>f fmmap bson_roundtrip
                                                      (update_fields data now)])))))))"
proof -
  from assms(2) have ne: "c2 \<noteq> c1" by simp
  have m: "get_model_by_collection E c1 = get_model_by_collection E c2"
    using assms(1) by (simp add: get_model_by_collection_def)
  note cf = create_frame [where E = E and db = db and c = c1 and data = data and ?now1.0 = now1
      and ?now2.0 = now2 and oid = oid]
  note uf = update_frame [where E = E and db = db and c = c1 and doc_id = doc_id
      and data = data and now = now]
  note df = delete_frame [where E = E and db = db and c = c1 and doc_id = doc_id]
  note rc = handlers_depend_on_collection [OF cf(2) [OF ne] cf(1)]
  note ru = handlers_depend_on_collection [OF uf(2) [OF ne] uf(1)]
  note rd = handlers_depend_on_collection [OF df(2) [OF ne] df(1)]
  have e: "list_documents E (Some st) c1 limit
                 = (Inr (Items (map (serialize_doc E)
                      (case limit of
                         None \<Rightarrow> st c1
                       | Some n \<Rightarrow> if n = 0 then st c1 else take (nat \<bar>n\<bar>) (st c1)))),
                    Some st)
               \<and> (\<forall>obj. construct E m' data = Inr obj \<longrightarrow>
                      \<not> list_ex (has_id (VObjectId oid)) (st c1) \<longrightarrow>
                      (\<exists>d. create E (Some st) c1 data now1 now2 oid
                              = (Inr (NewId (oid_str oid)), Some (st(c1 := st c1 @ [d])))
                          \<and> fmlookup d ''_id'' = Some (VObjectId oid)
                          \<and> fmlookup d ''created_at'' = Some (VDatetime (ms_floor now1))
                          \<and> fmlookup d ''updated_at'' = Some (VDatetime (ms_floor now2))
                          \<and> (\<forall>k. k \<notin> set reserved_keys \<longrightarrow> fmlookup d k = fmlookup obj k)))
               \<and> (\<forall>oid'. ObjectId_of_str doc_id = Some oid' \<longrightarrow>
                      find_one (st c1) oid' = None \<longrightarrow>
                      get_document E (Some st) c1 doc_id
                        = (Inl (HTTPException 404 ''Not found''), Some st)
                      \<and> update E (Some st) c1 doc_id data now
                          = (Inl (HTTPException 404 ''Not found''), Some st)
                      \<and> delete E (Some st) c1 doc_id
                          = (Inl (HTTPException 404 ''Not found''), Some st))
               \<and> (\<forall>oid' d. ObjectId_of_str doc_id = Some oid' \<longrightarrow>
                      find_one (st c1) oid' = Some d \<longrightarrow>
                      get_document E (Some st) c1 doc_id
                        = (Inr (Document (serialize_doc E d)), Some st)
                      \<and> (\<exists>i < length (st c1). st c1 ! i = d
                            \<and> delete E (Some st) c1 doc_id
                                = (Inr Ok,
                                   Some (st(c1 := take i (st c1) @ drop (Suc i) (st c1)))))
                      \<and> (\<forall>obj. construct E m' (fmdrop ''id'' (serialize_doc E d ++\<^sub>f data))
                                  = Inr obj \<longrightarrow>
                             plain_keys (fmdrop ''_id'' data) \<longrightarrow>
                             (\<exists>i < length (st c1). st c1 ! i = d
                                \<and> update E (Some st) c1 doc_id data now
                                    = (Inr Ok,
                                       Some (st(c1 := (st c1)
                                         [i := d ++\<^sub>f fmmap bson_roundtrip
                                                      (update_fields data now)]))))))"
    if k: "get_model_by_collection E c1 = Some m'" for m'
  proof (intro conjI allI impI)
    show "list_documents E (Some st) c1 limit
            = (Inr (Items (map (serialize_doc E)
                 (case limit of
                    None \<Rightarrow> st c1
                  | Some n \<Rightarrow> if n = 0 then st c1 else take (nat \<bar>n\<bar>) (st c1)))),
               Some st)"
      by (rule list_documents_known [OF k])
  next
    fix obj
    assume "construct E m' data = Inr obj" "\<not> list_ex (has_id (VObjectId oid)) (st c1)"
    then show "\<exists>d. create E (Some st) c1 data now1 now2 oid
                      = (Inr (NewId (oid_str oid)), Some (st(c1 := st c1 @ [d])))
                  \<and> fmlookup d ''_id'' = Some (VObjectId oid)
                  \<and> fmlookup d ''created_at'' = Some (VDatetime (ms_floor now1))
                  \<and> fmlookup d ''updated_at'' = Some (VDatetime (ms_floor now2))
                  \<and> (\<forall>k. k \<notin> set reserved_keys \<longrightarrow> fmlookup d k = fmlookup obj k)"
      by (rule create_known [OF k])
  next
    fix oid'
    assume a: "ObjectId_of_str doc_id = Some oid'" "find_one (st c1) oid' = None"
    show "get_document E (Some st) c1 doc_id
            = (Inl (HTTPException 404 ''Not found''), Some st)"
      by (rule get_document_missing [where st = st and c = c1, OF k a])
    show "update E (Some st) c1 doc_id data now
            = (Inl (HTTPException 404 ''Not found''), Some st)"
      by (rule update_missing [where st = st and c = c1, OF k a])
    show "delete E (Some st) c1 doc_id = (Inl (HTTPException 404 ''Not found''), Some st)"
      by (rule delete_missing [where st = st and c = c1, OF k a])
  next
    fix oid' d
    assume a: "ObjectId_of_str doc_id = Some oid'" "find_one (st c1) oid' = Some d"
    show "get_document E (Some st) c1 doc_id
            = (Inr (Document (serialize_doc E d)), Some st)"
      by (rule get_document_found [where st = st and c = c1, OF k a])
    show "\<exists>i < length (st c1). st c1 ! i = d
            \<and> delete E (Some st) c1 doc_id
                = (Inr Ok, Some (st(c1 := take i (st c1) @ drop (Suc i) (st c1))))"
      by (rule delete_known [where st = st and c = c1, OF k a])
    fix obj
    assume "construct E m' (fmdrop ''id'' (serialize_doc E d ++\<^sub>f data)) = Inr obj"
      and "plain_keys (fmdrop ''_id'' data)"
    then show "\<exists>i < length (st c1). st c1 ! i = d
                 \<and> update E (Some st) c1 doc_id data now
                     = (Inr Ok,
                        Some (st(c1 := (st c1)
                          [i := d ++\<^sub>f fmmap bson_roundtrip (update_fields data now)])))"
      by (rule update_known [where st = st and c = c1, OF k a])
  qed
  show ?thesis
    by (rule conjI [OF m conjI [OF cf(2) [OF ne] conjI [OF uf(2) [OF ne] conjI [OF df(2) [OF ne]
          conjI [OF rc(1) conjI [OF rc(2) conjI [OF ru(1) conjI [OF ru(2)
            conjI [OF rd(1) conjI [OF rd(2) allI [OF impI [OF e]]]]]]]]]]]])
qed

theorem collection_name_case_witness:
  "lower exact_runtime ''Title'' = lower exact_runtime ''title'' \<and> ''Title'' \<noteq> ''title''
   \<and> get_model_by_collection exact_runtime ''Title'' = Some Title
   \<and> get_model_by_collection exact_runtime ''title'' = Some Title
   \<and> list_documents exact_runtime (Some sample_case_db) ''Title'' (Some 100)
       = (Inr (Items [serialize_doc exact_runtime sample_title_stored]), Some sample_case_db)
   \<and> list_documents exact_runtime (Some sample_case_db) ''title'' (Some 100)
       = (Inr (Items []), Some sample_case_db)
   \<and> get_document exact_runtime (Some sample_case_db) ''Title'' (oid_str (ObjectId 1))
       = (Inr (Document (serialize_doc exact_runtime sample_title_stored)), Some sample_case_db)
   \<and> get_document exact_runtime (Some sample_case_db) ''title'' (oid_str (ObjectId 1))
       = (Inl (HTTPException 404 ''Not found''), Some sample_case_db)
   \<and> delete exact_runtime (Some sample_case_db) ''Title'' (oid_str (ObjectId 1))
       = (Inr Ok, Some (sample_case_db(''Title'' := [])))
   \<and> delete exact_runtime (Some sample_case_db) ''title'' (oid_str (ObjectId 1))
       = (Inl (HTTPException 404 ''Not found''), Some sample_case_db)
   \<and> update exact_runtime (Some sample_case_db) ''Title'' (oid_str (ObjectId 1)) sample_rename
         (Datetime 5500)
       = (Inr Ok,
          Some (sample_case_db(''Title'' :=
            [sample_title_stored
               ++\<^sub>f fmmap bson_roundtrip (update_fields sample_rename (Datetime 5500))])))
   \<and> update exact_runtime (Some sample_case_db) ''title'' (oid_str (ObjectId 1)) sample_rename
         (Datetime 5500)
       = (Inl (HTTPException 404 ''Not found''), Some sample_case_db)
   \<and> (\<exists>d. create exact_runtime (Some sample_case_db) ''Title'' sample_title_data
              (Datetime 1500) (Datetime 2700) (ObjectId 2)
            = (Inr (NewId (oid_str (ObjectId 2))),
               Some (sample_case_db(''Title'' := [sample_title_stored, d])))
          \<and> fmlookup d ''_id'' = Some (VObjectId (ObjectId 2))
          \<and> fmlookup d ''name'' = Some (VStr ''Hero''))
   \<and> documents_of
        (snd (create exact_runtime (Some sample_case_db) ''Title'' sample_title_data
                (Datetime 1500) (Datetime 2700) (ObjectId 2)))
        ''title''
       = []"
proof -
  have ne: "''Title'' \<noteq> ''title''" by simp
  have ne': "''title'' \<noteq> ''Title''" by simp
  note t = collection_name_case [OF lower_Title ne, where db = "Some sample_case_db"
      and st = sample_case_db and data = sample_rename and ?now1.0 = "Datetime 1500"
      and ?now2.0 = "Datetime 2700" and oid = "ObjectId 2" and limit = "Some 100"
      and doc_id = "oid_str (ObjectId 1)" and doc_id' = "oid_str (ObjectId 1)"
      and now = "Datetime 5500"]
  note tc = collection_name_case [OF lower_Title ne, where db = "Some sample_case_db"
      and st = sample_case_db and data = sample_title_data and ?now1.0 = "Datetime 1500"
      and ?now2.0 = "Datetime 2700" and oid = "ObjectId 2" and limit = "Some 100"
      and doc_id = "oid_str (ObjectId 1)" and doc_id' = "oid_str (ObjectId 1)"
      and now = "Datetime 5500"]
  note ts = collection_name_case [OF lower_Title [symmetric] ne',
      where db = "Some sample_case_db"
      and st = sample_case_db and data = sample_rename and ?now1.0 = "Datetime 1500"
      and ?now2.0 = "Datetime 2700" and oid = "ObjectId 2" and limit = "Some 100"
      and doc_id = "oid_str (ObjectId 1)" and doc_id' = "oid_str (ObjectId 1)"
      and now = "Datetime 5500"]
  from t [THEN conjunct1] get_model_Title
  have m2: "get_model_by_collection exact_runtime ''title'' = Some Title"
    by simp
  note e = t [THEN conjunct2, THEN conjunct2, THEN conjunct2, THEN conjunct2, THEN conjunct2,
      THEN conjunct2, THEN conjunct2, THEN conjunct2, THEN conjunct2, THEN conjunct2,
      THEN spec, THEN mp, OF get_model_Title]
  note ec = tc [THEN conjunct2, THEN conjunct2, THEN conjunct2, THEN conjunct2, THEN conjunct2,
      THEN conjunct2, THEN conjunct2, THEN conjunct2, THEN conjunct2, THEN conjunct2,
      THEN spec, THEN mp, OF get_model_Title]
  note es = ts [THEN conjunct2, THEN conjunct2, THEN conjunct2, THEN conjunct2, THEN conjunct2,
      THEN conjunct2, THEN conjunct2, THEN conjunct2, THEN conjunct2, THEN conjunct2,
      THEN spec, THEN mp, OF m2]
  from e [THEN conjunct1]
  have l1: "list_documents exact_runtime (Some sample_case_db) ''Title'' (Some 100)
       = (Inr (Items [serialize_doc exact_runtime sample_title_stored]), Some sample_case_db)"
    by (simp add: sample_case_docs)
  from es [THEN conjunct1]
  have l2: "list_documents exact_runtime (Some sample_case_db) ''title'' (Some 100)
       = (Inr (Items []), Some sample_case_db)"
    by (simp add: sample_case_docs)
  note found = e [THEN conjunct2, THEN conjunct2, THEN conjunct2, THEN spec, THEN spec,
      THEN mp, THEN mp, OF ObjectId_of_str_oid_str sample_case_find_one(1)]
  note missing = es [THEN conjunct2, THEN conjunct2, THEN conjunct1, THEN spec,
      THEN mp, THEN mp, OF ObjectId_of_str_oid_str sample_case_find_one(2)]
  note g1 = found [THEN conjunct1]
  note g2 = missing [THEN conjunct1]
  note u2 = missing [THEN conjunct2, THEN conjunct1]
  note d2 = missing [THEN conjunct2, THEN conjunct2]
  from found [THEN conjunct2, THEN conjunct1]
  have d1: "delete exact_runtime (Some sample_case_db) ''Title'' (oid_str (ObjectId 1))
       = (Inr Ok, Some (sample_case_db(''Title'' := [])))"
    by (auto simp: sample_case_docs)
  from found [THEN conjunct2, THEN conjunct2, THEN spec, THEN mp, THEN mp,
      OF sample_rename_accepted sample_rename_plain]
  have u1: "update exact_runtime (Some sample_case_db) ''Title'' (oid_str (ObjectId 1))
         sample_rename (Datetime 5500)
       = (Inr Ok,
          Some (sample_case_db(''Title'' :=
            [sample_title_stored
               ++\<^sub>f fmmap bson_roundtrip (update_fields sample_rename (Datetime 5500))])))"
    by (auto simp: sample_case_docs)
  have c1: "\<exists>d. create exact_runtime (Some sample_case_db) ''Title'' sample_title_data
              (Datetime 1500) (Datetime 2700) (ObjectId 2)
            = (Inr (NewId (oid_str (ObjectId 2))),
               Some (sample_case_db(''Title'' := [sample_title_stored, d])))
          \<and> fmlookup d ''_id'' = Some (VObjectId (ObjectId 2))
          \<and> fmlookup d ''name'' = Some (VStr ''Hero'')"
    using ec [THEN conjunct2, THEN conjunct1, THEN spec, THEN mp, THEN mp,
      OF sample_title_accepted sample_case_find_one(3)]
  proof (elim exE conjE)
    fix d
    assume a: "create exact_runtime (Some sample_case_db) ''Title'' sample_title_data
              (Datetime 1500) (Datetime 2700) (ObjectId 2)
            = (Inr (NewId (oid_str (ObjectId 2))),
               Some (sample_case_db(''Title'' := sample_case_db ''Title'' @ [d])))"
      and b: "fmlookup d ''_id'' = Some (VObjectId (ObjectId 2))"
      and k: "\<forall>k. k \<notin> set reserved_keys \<longrightarrow> fmlookup d k = fmlookup sample_title k"
    from a have a': "create exact_runtime (Some sample_case_db) ''Title'' sample_title_data
              (Datetime 1500) (Datetime 2700) (ObjectId 2)
            = (Inr (NewId (oid_str (ObjectId 2))),
               Some (sample_case_db(''Title'' := [sample_title_stored, d])))"
      by (simp add: sample_case_docs)
    from k [THEN spec, of "''name''"] have n: "fmlookup d ''name'' = Some (VStr ''Hero'')"
      by (simp add: reserved_keys_def sample_title_def)
    show ?thesis
      by (rule exI [of _ d]) (rule conjI [OF a' conjI [OF b n]])
  qed
  from tc [THEN conjunct2, THEN conjunct1]
  have f: "documents_of
        (snd (create exact_runtime (Some sample_case_db) ''Title'' sample_title_data
                (Datetime 1500) (Datetime 2700) (ObjectId 2)))
        ''title''
       = []"
    by (simp add: documents_of_def sample_case_docs)
  show ?thesis
    by (rule conjI [OF lower_Title conjI [OF ne conjI [OF get_model_Title conjI [OF m2
          conjI [OF l1 conjI [OF l2 conjI [OF g1 conjI [OF g2 conjI [OF d1 conjI [OF d2
            conjI [OF u1 conjI [OF u2 conjI [OF c1 f]]]]]]]]]]]]])
qed

end
